theory Spec2Isabelle
  imports Main
begin

section \<open>Values of the handlers\<close>

text \<open>
  The embedding covers \<^verbatim>\<open>src/auth/handlers/auth.ts\<close>: the handlers
  \<^verbatim>\<open>authApp.post("/login")\<close> and \<^verbatim>\<open>authApp.post("/register")\<close>.

  The request bodies and the OAuth request information are results of JSON parsing
  that the handlers use behind unchecked casts (\<^verbatim>\<open>as LoginData\<close>,
  \<^verbatim>\<open>as CreateUserData\<close>, \<^verbatim>\<open>as any\<close>), so every field is a JSON value;
  \<open>None\<close> of \<open>json option\<close> is JavaScript's \<^verbatim>\<open>undefined\<close> (a property that is
  not there). Numbers are restricted to integers. A string is the list of its UTF-16
  code units, restricted to code units below 256 (one \<open>char\<close> each), so \<open>length\<close> is
  JavaScript's \<^verbatim>\<open>.length\<close>.
\<close>

datatype json =
    JNull
  | JBool bool
  | JNum int
  | JStr string
  | JArr "json list"
  | JObj "(string \<times> json) list"

text \<open>Truthiness of a JavaScript value, as \<^verbatim>\<open>!x\<close>, \<^verbatim>\<open>x || y\<close> and \<^verbatim>\<open>if (x)\<close> read it.\<close>

fun truthy :: "json option \<Rightarrow> bool" where
  "truthy None = False"
| "truthy (Some JNull) = False"
| "truthy (Some (JBool b)) = b"
| "truthy (Some (JNum n)) = (n \<noteq> 0)"
| "truthy (Some (JStr s)) = (s \<noteq> [])"
| "truthy (Some (JArr xs)) = True"
| "truthy (Some (JObj kvs)) = True"

text \<open>
  Reading a property \<^verbatim>\<open>v.k\<close> of a parsed value other than \<^verbatim>\<open>null\<close>: an object
  gives its own property (\<open>JObj\<close> lists the properties, each name once), every other
  value gives \<^verbatim>\<open>undefined\<close> for the names the handler reads. (On \<^verbatim>\<open>null\<close> the
  read throws; the handler's model tests for it.)
\<close>

fun property :: "json \<Rightarrow> string \<Rightarrow> json option" where
  "property (JObj kvs) k = map_of kvs k"
| "property v k = None"

datatype exn = TypeError | SyntaxError | ServiceError string

text \<open>
  \<^verbatim>\<open>v.length\<close>: the number of code units of a string, the number of elements of an
  array, the own property \<open>length\<close> of an object, \<^verbatim>\<open>undefined\<close> on a number or a
  boolean, and a TypeError on \<^verbatim>\<open>null\<close>.
\<close>

fun js_length :: "json \<Rightarrow> exn + json option" where
  "js_length JNull = Inl TypeError"
| "js_length (JStr s) = Inr (Some (JNum (int (length s))))"
| "js_length (JArr xs) = Inr (Some (JNum (int (length xs))))"
| "js_length (JObj kvs) = Inr (map_of kvs ''length'')"
| "js_length (JBool b) = Inr None"
| "js_length (JNum n) = Inr None"

text \<open>\<^verbatim>\<open>s.split('\n')\<close>: the pieces between the separators, \<open>[""]\<close> for the empty string.\<close>

fun split_on :: "char \<Rightarrow> string \<Rightarrow> string list" where
  "split_on c [] = [[]]"
| "split_on c (x # xs) =
     (if x = c then [] # split_on c xs
      else (case split_on c xs of
              [] \<Rightarrow> [[x]]
            | w # ws \<Rightarrow> (x # w) # ws))"

definition split_newline :: "string \<Rightarrow> string list" where
  "split_newline s = split_on (CHR 0x0A) s"

record user =
  user_id :: string
  username :: string
  email :: string
  name :: string
  password_hash :: string

text \<open>The object \<^verbatim>\<open>{ id, username, email, name }\<close> built from a user row.\<close>

record user_data =
  ud_id :: string
  ud_username :: string
  ud_email :: string
  ud_name :: string

definition userData :: "user \<Rightarrow> user_data" where
  "userData u = \<lparr>ud_id = user_id u, ud_username = username u, ud_email = email u, ud_name = name u\<rparr>"

text \<open>
  The two columns of an application row that the handler reads: \<open>redirect_uri\<close>, a
  string of newline-separated URIs, and \<open>scopes\<close>, which the handler passes on as it is.
\<close>

record oauth_application =
  redirect_uri :: string
  scopes :: json

record code_data =
  authorizationCode :: string
  expiresAt :: int
  redirectUri :: "json option"
  scope :: json
  codeChallenge :: "json option"
  codeChallengeMethod :: "json option"

record client_data =
  client_id :: json
  redirectUris :: "string list"
  grants :: "string list"
  client_scope :: json

text \<open>
  The fields the handlers take from the request bodies by destructuring: whatever JSON
  value the body has under the name, \<open>None\<close> when it has none.
\<close>

record login_body =
  login_username :: "json option"
  login_password :: "json option"
  login_state :: "json option"

record register_body =
  reg_username :: "json option"
  reg_email :: "json option"
  reg_name :: "json option"
  reg_password :: "json option"

text \<open>The object \<^verbatim>\<open>{ username, email, name, password }\<close> given to \<^verbatim>\<open>db.createUser\<close>.\<close>

record create_user_data =
  new_username :: json
  new_email :: json
  new_name :: json
  new_password :: json

record session_payload =
  payload_user :: user_data
  iat :: int
  exp_at :: int

text \<open>
  A parsed \<^verbatim>\<open>URL\<close> object: everything but the query, and the query's name-value
  pairs, which are strings.
\<close>

record url =
  url_base :: string
  searchParams :: "(string \<times> string) list"

text \<open>
  \<^verbatim>\<open>searchParams.set(k, v)\<close> for a string \<open>v\<close>: the first pair named \<open>k\<close> takes the
  value and the other pairs of that name go; with no such pair, the pair is appended.
\<close>

fun params_set :: "(string \<times> string) list \<Rightarrow> string \<Rightarrow> string \<Rightarrow> (string \<times> string) list" where
  "params_set [] k v = [(k, v)]"
| "params_set (p # ps) k v =
     (if fst p = k then (k, v) # filter (\<lambda>q. fst q \<noteq> k) ps
      else p # params_set ps k v)"

definition url_set :: "url \<Rightarrow> string \<Rightarrow> string \<Rightarrow> url" where
  "url_set u k v = u\<lparr>searchParams := params_set (searchParams u) k v\<rparr>"

text \<open>
  The responses: \<^verbatim>\<open>c.json({ message }, status)\<close> (status 200 when none is given),
  \<^verbatim>\<open>c.json({ redirectTo: redirectUrl.href })\<close> and the answer of a direct login,
  \<^verbatim>\<open>c.json({ redirectTo: "/", message: "Login successful", user })\<close>.
\<close>

datatype response =
    Json_message string nat
  | Json_redirect url
  | Json_login user_data

text \<open>
  What a request does to the world outside the handler, in the order it happens.
  \<open>Connected\<close>: \<^verbatim>\<open>db.connect()\<close> returned. \<open>Disconnect\<close>: \<^verbatim>\<open>db.disconnect()\<close>
  was called. \<open>Saved\<close>: \<^verbatim>\<open>oauth2Model.saveAuthorizationCode\<close> returned, with its three
  arguments. \<open>Created\<close>: \<^verbatim>\<open>db.createUser\<close> returned. \<open>SetCookie\<close>: the session
  cookie (name, value, maxAge). \<open>ConsoleError\<close>: a line of \<^verbatim>\<open>console.error\<close>.
\<close>

datatype effect =
    Connected
  | Disconnect
  | Saved code_data client_data user_data
  | Created create_user_data
  | SetCookie string string nat
  | ConsoleError string exn

section \<open>The collaborators\<close>

text \<open>
  \<^verbatim>\<open>DatabaseService\<close> (\<^verbatim>\<open>src/database\<close>), \<^verbatim>\<open>OAuth2Model\<close> (\<^verbatim>\<open>src/auth/oauth2.ts\<close>),
  \<^verbatim>\<open>sign\<close> of \<^verbatim>\<open>hono/jwt\<close> and the platform's \<^verbatim>\<open>Date.now\<close>, \<^verbatim>\<open>atob\<close>,
  \<^verbatim>\<open>JSON.parse\<close> and \<^verbatim>\<open>new URL\<close> are not part of the handlers' file. They are
  parameters of the model: every theorem about \<open>login\<close> and \<open>register\<close> holds for any
  behaviour of theirs. A call that may throw returns \<open>Inl\<close> of the exception (for a call
  made for its effect only, \<open>Some\<close> of it, and \<open>None\<close> when the call returns). Within one
  request every read of the Store comes before the request's only write, so a read does
  not depend on an effect of the same request. The constructors
  \<^verbatim>\<open>new DatabaseService\<close> and \<^verbatim>\<open>new OAuth2Model\<close>, \<^verbatim>\<open>setCookie\<close> and
  \<^verbatim>\<open>c.json\<close> are taken not to throw, and \<^verbatim>\<open>generateAuthorizationCode\<close> to
  return a string.

  Two conversions of the language are parameters too, where they leave the values the
  model computes with. \<open>to_String\<close> is the conversion of a value that is not a string to
  a string, as \<^verbatim>\<open>searchParams.set\<close> applies it to its second argument; it throws a
  TypeError for an object that has no callable \<^verbatim>\<open>toString\<close> or \<^verbatim>\<open>valueOf\<close>.
  \<open>coerced_less_than\<close> is \<^verbatim>\<open>v < n\<close> for a string, an array or an object \<open>v\<close>,
  which converts \<open>v\<close> to a number first and may throw likewise.
\<close>

record env =
  Date_now :: int
  JWT_SECRET :: string
  JSON_parse_atob :: "json \<Rightarrow> json option"
  new_URL :: "json option \<Rightarrow> exn + url"
  to_String :: "json \<Rightarrow> exn + string"
  coerced_less_than :: "json \<Rightarrow> int \<Rightarrow> exn + bool"
  sign :: "session_payload \<Rightarrow> string \<Rightarrow> exn + string"
  connect :: "exn option"
  disconnect :: "exn option"
  getUserByUsername :: "json \<Rightarrow> exn + user option"
  getUserByEmail :: "json \<Rightarrow> exn + user option"
  verifyPassword :: "json \<Rightarrow> string \<Rightarrow> exn + bool"
  createUser :: "create_user_data \<Rightarrow> exn option"
  getOAuthApplicationByClientId :: "json \<Rightarrow> exn + oauth_application option"
  generateAuthorizationCode :: "json \<Rightarrow> user_data \<Rightarrow> json \<Rightarrow> exn + string"
  saveAuthorizationCode :: "code_data \<Rightarrow> client_data \<Rightarrow> user_data \<Rightarrow> exn option"

text \<open>The conversion of a value to a string: a string is its own conversion.\<close>

definition String_of :: "env \<Rightarrow> json \<Rightarrow> exn + string" where
  "String_of e v = (case v of JStr s \<Rightarrow> Inr s | _ \<Rightarrow> to_String e v)"

text \<open>
  \<^verbatim>\<open>x < n\<close> for a number \<open>n\<close>: \<^verbatim>\<open>undefined\<close> converts to NaN and compares false,
  \<^verbatim>\<open>null\<close> counts as 0, \<^verbatim>\<open>false\<close> and \<^verbatim>\<open>true\<close> as 0 and 1.
\<close>

definition less_than :: "env \<Rightarrow> json option \<Rightarrow> int \<Rightarrow> exn + bool" where
  "less_than e x n =
     (case x of
        None \<Rightarrow> Inr False
      | Some (JNum k) \<Rightarrow> Inr (k < n)
      | Some JNull \<Rightarrow> Inr (0 < n)
      | Some (JBool b) \<Rightarrow> Inr ((if b then 1 else 0) < n)
      | Some v \<Rightarrow> coerced_less_than e v n)"

section \<open>The login handler\<close>

text \<open>\<^verbatim>\<open>createSessionToken\<close>: the payload it signs (30 days of validity).\<close>

definition session_payload_of :: "env \<Rightarrow> user \<Rightarrow> session_payload" where
  "session_payload_of e u =
     \<lparr>payload_user = userData u,
      iat = Date_now e div 1000,
      exp_at = Date_now e div 1000 + 30 * 24 * 60 * 60\<rparr>"

definition createSessionToken :: "env \<Rightarrow> user \<Rightarrow> string \<Rightarrow> exn + string" where
  "createSessionToken e u jwtSecret = sign e (session_payload_of e u) jwtSecret"

text \<open>The three objects of the OAuth branch (lines 96 to 117 of the handler).\<close>

definition codeData :: "env \<Rightarrow> string \<Rightarrow> json \<Rightarrow> code_data" where
  "codeData e authCode oauthReqInfo =
     \<lparr>authorizationCode = authCode,
      expiresAt = Date_now e + 10 * 60 * 1000,
      redirectUri = property oauthReqInfo ''redirectUri'',
      scope = (case property oauthReqInfo ''scope'' of
                 None \<Rightarrow> JArr [JStr ''read'']
               | Some (JArr xs) \<Rightarrow> JArr xs
               | Some v \<Rightarrow> (if truthy (Some v) then JArr [v] else JArr [JStr ''read''])),
      codeChallenge = property oauthReqInfo ''codeChallenge'',
      codeChallengeMethod = property oauthReqInfo ''codeChallengeMethod''\<rparr>"

definition clientData :: "json \<Rightarrow> oauth_application \<Rightarrow> client_data" where
  "clientData clientId application =
     \<lparr>client_id = clientId,
      redirectUris = split_newline (redirect_uri application),
      grants = [''authorization_code'', ''refresh_token''],
      client_scope = scopes application\<rparr>"

text \<open>\<^verbatim>\<open>oauthReqInfo.scope || ['read']\<close>, the scope handed to \<^verbatim>\<open>generateAuthorizationCode\<close>.\<close>

definition scope_or_read :: "json \<Rightarrow> json" where
  "scope_or_read oauthReqInfo =
     (case property oauthReqInfo ''scope'' of
        None \<Rightarrow> JArr [JStr ''read'']
      | Some v \<Rightarrow> (if truthy (Some v) then v else JArr [JStr ''read'']))"

text \<open>
  Lines 124 to 127, on the URL that \<^verbatim>\<open>new URL\<close> returned: \<open>code\<close> is set and, when
  \<^verbatim>\<open>oauthReqInfo.state\<close> is truthy, \<open>state\<close> is set to its conversion to a string.
  The conversion may throw, which leaves the inner \<^verbatim>\<open>try\<close>.
\<close>

definition redirectUrl :: "env \<Rightarrow> url \<Rightarrow> string \<Rightarrow> json \<Rightarrow> exn + url" where
  "redirectUrl e u authCode oauthReqInfo =
     (let u1 = url_set u ''code'' authCode
      in (case property oauthReqInfo ''state'' of
            None \<Rightarrow> Inr u1
          | Some st \<Rightarrow>
              if truthy (Some st)
              then (case String_of e st of
                      Inl x \<Rightarrow> Inl x
                    | Inr s \<Rightarrow> Inr (url_set u1 ''state'' s))
              else Inr u1))"

text \<open>
  The branch \<^verbatim>\<open>if (state) { ... }\<close> of the login handler (lines 62 to 129), for
  the user whose password was verified. It returns the handler's response (\<open>Inr\<close>) or the
  exception that leaves the inner \<^verbatim>\<open>try\<close> (\<open>Inl\<close>), with the effects so far.
\<close>

definition oauth_flow :: "env \<Rightarrow> user \<Rightarrow> json \<Rightarrow> (exn + response) \<times> effect list" where
  "oauth_flow e u state =
     (case JSON_parse_atob e state of
        None \<Rightarrow> (Inr (Json_message ''Invalid state parameter'' 400), [])
      | Some JNull \<Rightarrow> (Inl TypeError, [])
      | Some oauthReqInfo \<Rightarrow>
          (case property oauthReqInfo ''clientId'' of
             None \<Rightarrow> (Inr (Json_message ''Invalid state - missing client ID'' 400), [])
           | Some clientId \<Rightarrow>
               if \<not> truthy (Some clientId)
               then (Inr (Json_message ''Invalid state - missing client ID'' 400), [])
               else
                 (case getOAuthApplicationByClientId e clientId of
                    Inl x \<Rightarrow> (Inl x, [])
                  | Inr None \<Rightarrow> (Inr (Json_message ''Invalid client'' 400), [])
                  | Inr (Some application) \<Rightarrow>
                      (case generateAuthorizationCode e clientId (userData u)
                              (scope_or_read oauthReqInfo) of
                         Inl x \<Rightarrow> (Inl x, [])
                       | Inr authCode \<Rightarrow>
                           (case saveAuthorizationCode e (codeData e authCode oauthReqInfo)
                                   (clientData clientId application) (userData u) of
                              Some x \<Rightarrow> (Inl x, [])
                            | None \<Rightarrow>
                                (case new_URL e (property oauthReqInfo ''redirectUri'') of
                                   Inl x \<Rightarrow>
                                     (Inl x,
                                      [Saved (codeData e authCode oauthReqInfo)
                                         (clientData clientId application) (userData u)])
                                 | Inr parsed \<Rightarrow>
                                     (case redirectUrl e parsed authCode oauthReqInfo of
                                        Inl x \<Rightarrow>
                                          (Inl x,
                                           [Saved (codeData e authCode oauthReqInfo)
                                              (clientData clientId application) (userData u)])
                                      | Inr r \<Rightarrow>
                                          (Inr (Json_redirect r),
                                           [Saved (codeData e authCode oauthReqInfo)
                                              (clientData clientId application)
                                              (userData u)]))))))))"

text \<open>The branch of a direct login (lines 131 to 158), with its own \<^verbatim>\<open>try\<close>.\<close>

definition direct_login :: "env \<Rightarrow> user \<Rightarrow> (exn + response) \<times> effect list" where
  "direct_login e u =
     (case createSessionToken e u (JWT_SECRET e) of
        Inl x \<Rightarrow>
          (Inr (Json_message ''Failed to create session'' 500),
           [ConsoleError ''Session token creation error:'' x])
      | Inr sessionToken \<Rightarrow>
          (Inr (Json_login (userData u)),
           [SetCookie ''session'' sessionToken (30 * 24 * 60 * 60)]))"

text \<open>The body of the inner \<^verbatim>\<open>try\<close> of the login handler (lines 49 to 159).\<close>

definition login_try :: "env \<Rightarrow> json \<Rightarrow> json \<Rightarrow> json option \<Rightarrow> (exn + response) \<times> effect list" where
  "login_try e uname pw state =
     (case getUserByUsername e uname of
        Inl x \<Rightarrow> (Inl x, [])
      | Inr None \<Rightarrow> (Inr (Json_message ''Invalid username or password'' 401), [])
      | Inr (Some u) \<Rightarrow>
          (case verifyPassword e pw (password_hash u) of
             Inl x \<Rightarrow> (Inl x, [])
           | Inr isValidPassword \<Rightarrow>
               if \<not> isValidPassword
               then (Inr (Json_message ''Invalid username or password'' 401), [])
               else (case state of
                       None \<Rightarrow> direct_login e u
                     | Some s \<Rightarrow> (if truthy (Some s) then oauth_flow e u s else direct_login e u))))"

text \<open>
  The frame both handlers share: \<^verbatim>\<open>await db.connect()\<close>, then
  \<^verbatim>\<open>try { ... } finally { await db.disconnect() }\<close>, inside the outer
  \<^verbatim>\<open>try { ... } catch (error) { console.error(label, error); return 500 }\<close>.
  An exception of \<^verbatim>\<open>db.disconnect()\<close> replaces the outcome of the inner block.
\<close>

definition internal_error :: "string \<Rightarrow> exn \<Rightarrow> response \<times> effect list" where
  "internal_error label x = (Json_message ''Internal server error'' 500, [ConsoleError label x])"

definition with_connection ::
  "env \<Rightarrow> string \<Rightarrow> (exn + response) \<times> effect list \<Rightarrow> response \<times> effect list" where
  "with_connection e label body =
     (case connect e of
        Some x \<Rightarrow> internal_error label x
      | None \<Rightarrow>
          (case disconnect e of
             Some x \<Rightarrow>
               (Json_message ''Internal server error'' 500,
                Connected # snd body @ [Disconnect, ConsoleError label x])
           | None \<Rightarrow>
               (case fst body of
                  Inl x \<Rightarrow>
                    (Json_message ''Internal server error'' 500,
                     Connected # snd body @ [Disconnect, ConsoleError label x])
                | Inr r \<Rightarrow> (r, Connected # snd body @ [Disconnect]))))"

text \<open>
  \<^verbatim>\<open>authApp.post("/login")\<close>. The argument is the outcome of
  \<^verbatim>\<open>await c.req.json()\<close> and of the destructuring of its value: \<open>Inl\<close> when the body
  cannot be read.
\<close>

definition login :: "env \<Rightarrow> exn + login_body \<Rightarrow> response \<times> effect list" where
  "login e req =
     (case req of
        Inl x \<Rightarrow> internal_error ''Login error:'' x
      | Inr body \<Rightarrow>
          (case (login_username body, login_password body) of
             (Some uname, Some pw) \<Rightarrow>
               if \<not> truthy (Some uname) \<or> \<not> truthy (Some pw)
               then (Json_message ''Username and password are required'' 400, [])
               else with_connection e ''Login error:'' (login_try e uname pw (login_state body))
           | _ \<Rightarrow> (Json_message ''Username and password are required'' 400, [])))"

section \<open>The registration handler\<close>

text \<open>
  \<^verbatim>\<open>password.length < 6\<close> (line 179), for the truthy value the handler has under
  \<open>password\<close>.
\<close>

definition password_length_less_than_6 :: "env \<Rightarrow> json \<Rightarrow> exn + bool" where
  "password_length_less_than_6 e pw =
     (case js_length pw of
        Inl x \<Rightarrow> Inl x
      | Inr l \<Rightarrow> less_than e l 6)"

text \<open>The body of the inner \<^verbatim>\<open>try\<close> of the registration handler (lines 187 to 201).\<close>

definition register_try :: "env \<Rightarrow> create_user_data \<Rightarrow> (exn + response) \<times> effect list" where
  "register_try e d =
     (case getUserByUsername e (new_username d) of
        Inl x \<Rightarrow> (Inl x, [])
      | Inr (Some existingUserByUsername) \<Rightarrow>
          (Inr (Json_message ''Username already exists'' 400), [])
      | Inr None \<Rightarrow>
          (case getUserByEmail e (new_email d) of
             Inl x \<Rightarrow> (Inl x, [])
           | Inr (Some existingUserByEmail) \<Rightarrow>
               (Inr (Json_message ''Email already exists'' 400), [])
           | Inr None \<Rightarrow>
               (case createUser e d of
                  Some x \<Rightarrow> (Inl x, [])
                | None \<Rightarrow> (Inr (Json_message ''User created successfully'' 200), [Created d]))))"

text \<open>
  \<^verbatim>\<open>authApp.post("/register")\<close>, on the outcome of \<^verbatim>\<open>await c.req.json()\<close>. An
  exception of the length test is inside the outer \<^verbatim>\<open>try\<close> and before the
  connection.
\<close>

definition register :: "env \<Rightarrow> exn + register_body \<Rightarrow> response \<times> effect list" where
  "register e req =
     (case req of
        Inl x \<Rightarrow> internal_error ''Registration error:'' x
      | Inr body \<Rightarrow>
          (case (reg_username body, reg_email body, reg_name body, reg_password body) of
             (Some uname, Some mail, Some nm, Some pw) \<Rightarrow>
               if \<not> truthy (Some uname) \<or> \<not> truthy (Some mail) \<or> \<not> truthy (Some nm) \<or>
                  \<not> truthy (Some pw)
               then (Json_message ''All fields are required'' 400, [])
               else
                 (case password_length_less_than_6 e pw of
                    Inl x \<Rightarrow> internal_error ''Registration error:'' x
                  | Inr True \<Rightarrow>
                      (Json_message ''Password must be at least 6 characters long'' 400, [])
                  | Inr False \<Rightarrow>
                      with_connection e ''Registration error:''
                        (register_try e
                           \<lparr>new_username = uname, new_email = mail, new_name = nm,
                            new_password = pw\<rparr>))
           | _ \<Rightarrow> (Json_message ''All fields are required'' 400, [])))"

section \<open>Connection events\<close>

text \<open>The events of a request that open or release the Store connection, in order.\<close>

definition connection_events :: "effect list \<Rightarrow> effect list" where
  "connection_events effs = filter (\<lambda>x. x = Connected \<or> x = Disconnect) effs"

section \<open>A sample deployment\<close>

text \<open>
  One user, one registered client (the client of the specification's scenario, with the
  single redirect URI \<^verbatim>\<open>https://app/cb\<close> and the scope \<^verbatim>\<open>read\<close>) and a Store
  whose calls all return; \<^verbatim>\<open>saveAuthorizationCode\<close> stores what it is given. The
  closed instances below run the handlers on it. The \<open>state\<close> strings stand for the
  base64 texts; \<open>sample_states\<close> is what \<^verbatim>\<open>JSON.parse(atob(state))\<close> yields for
  each, and no other value decodes. \<open>sample_new_URL\<close> parses the two URLs of the
  instances and throws on anything else, as \<^verbatim>\<open>new URL\<close> does on \<^verbatim>\<open>undefined\<close>.
\<close>

definition alice :: user where
  "alice = \<lparr>user_id = ''u1'', username = ''alice'', email = ''alice@example.com'',
            name = ''Alice'', password_hash = ''hash:wonderland''\<rparr>"

definition app_c1 :: oauth_application where
  "app_c1 = \<lparr>redirect_uri = ''https://app/cb'', scopes = JStr ''read''\<rparr>"

definition sample_states :: "(string \<times> json) list" where
  "sample_states =
     [(''state-ok'',
         JObj [(''clientId'', JStr ''C1''), (''redirectUri'', JStr ''https://app/cb''),
               (''scope'', JArr [JStr ''read'']), (''state'', JStr ''xyz'')]),
      (''state-no-scope'',
         JObj [(''clientId'', JStr ''C1''), (''redirectUri'', JStr ''https://app/cb'')]),
      (''state-other-uri'',
         JObj [(''clientId'', JStr ''C1''), (''redirectUri'', JStr ''https://evil.example/cb''),
               (''state'', JStr ''xyz'')]),
      (''state-admin'',
         JObj [(''clientId'', JStr ''C1''), (''redirectUri'', JStr ''https://app/cb''),
               (''scope'', JArr [JStr ''admin''])]),
      (''state-no-uri'', JObj [(''clientId'', JStr ''C1'')]),
      (''state-empty-state'',
         JObj [(''clientId'', JStr ''C1''), (''redirectUri'', JStr ''https://app/cb''),
               (''state'', JStr [])]),
      (''state-object-state'',
         JObj [(''clientId'', JStr ''C1''), (''redirectUri'', JStr ''https://app/cb''),
               (''state'', JObj [(''toString'', JNum 1), (''valueOf'', JNum 1)])])]"

definition sample_JSON_parse_atob :: "json \<Rightarrow> json option" where
  "sample_JSON_parse_atob v = (case v of JStr s \<Rightarrow> map_of sample_states s | _ \<Rightarrow> None)"

definition sample_new_URL :: "json option \<Rightarrow> exn + url" where
  "sample_new_URL v =
     (case v of
        Some (JStr s) \<Rightarrow>
          (if s = ''https://app/cb'' \<or> s = ''https://evil.example/cb''
           then Inr \<lparr>url_base = s, searchParams = []\<rparr>
           else Inl TypeError)
      | _ \<Rightarrow> Inl TypeError)"

text \<open>
  The conversion of a JSON value to a string. A number is an integer of absolute value
  below \<^verbatim>\<open>1e21\<close> and printed in decimal; an array is its elements joined by commas,
  \<^verbatim>\<open>null\<close> counting as the empty string; an object parsed from JSON has no callable
  property, so it is \<^verbatim>\<open>[object Object]\<close> by the inherited \<^verbatim>\<open>toString\<close>, and a
  TypeError when an own property \<open>toString\<close> hides that.
\<close>

fun decimal :: "nat \<Rightarrow> string" where
  "decimal n =
     (if n < 10 then [char_of (48 + n)]
      else decimal (n div 10) @ [char_of (48 + n mod 10)])"

declare decimal.simps [simp del]

fun sample_to_String :: "json \<Rightarrow> exn + string"
  and sample_join :: "json list \<Rightarrow> exn + string" where
  "sample_to_String JNull = Inr ''null''"
| "sample_to_String (JBool b) = Inr (if b then ''true'' else ''false'')"
| "sample_to_String (JNum n) =
     Inr (if n < 0 then CHR ''-'' # decimal (nat (- n)) else decimal (nat n))"
| "sample_to_String (JStr s) = Inr s"
| "sample_to_String (JArr xs) = sample_join xs"
| "sample_to_String (JObj kvs) =
     (if map_of kvs ''toString'' = None then Inr ''[object Object]'' else Inl TypeError)"
| "sample_join [] = Inr []"
| "sample_join (x # xs) =
     (case (if x = JNull then Inr [] else sample_to_String x) of
        Inl err \<Rightarrow> Inl err
      | Inr s \<Rightarrow>
          (if xs = [] then Inr s
           else (case sample_join xs of
                   Inl err \<Rightarrow> Inl err
                 | Inr t \<Rightarrow> Inr (s @ '','' @ t))))"

text \<open>
  The sample has no instance that compares a string, an array or an object with a
  number; \<open>coerced_less_than\<close> of the sample is given for objects only. An object
  parsed from JSON converts to NaN, which compares false, by the inherited
  \<^verbatim>\<open>toString\<close>, and the conversion throws when an own property \<open>toString\<close> hides
  that.
\<close>

definition sample_coerced_less_than :: "json \<Rightarrow> int \<Rightarrow> exn + bool" where
  "sample_coerced_less_than v n =
     (case v of
        JObj kvs \<Rightarrow> (if map_of kvs ''toString'' = None then Inr False else Inl TypeError)
      | _ \<Rightarrow> Inl TypeError)"

definition sample_env :: env where
  "sample_env =
     \<lparr>Date_now = 1000000,
      JWT_SECRET = ''secret'',
      JSON_parse_atob = sample_JSON_parse_atob,
      new_URL = sample_new_URL,
      to_String = sample_to_String,
      coerced_less_than = sample_coerced_less_than,
      sign = (\<lambda>p k. Inr ''jwt''),
      connect = None,
      disconnect = None,
      getUserByUsername = (\<lambda>n. Inr (if n = JStr ''alice'' then Some alice else None)),
      getUserByEmail = (\<lambda>m. Inr (if m = JStr ''alice@example.com'' then Some alice else None)),
      verifyPassword = (\<lambda>pw h. Inr (case pw of JStr p \<Rightarrow> h = ''hash:'' @ p | _ \<Rightarrow> False)),
      createUser = (\<lambda>d. None),
      getOAuthApplicationByClientId = (\<lambda>c. Inr (if c = JStr ''C1'' then Some app_c1 else None)),
      generateAuthorizationCode = (\<lambda>c u sc. Inr ''code-1''),
      saveAuthorizationCode = (\<lambda>cd cl u. None)\<rparr>"

definition alice_login :: "string \<Rightarrow> exn + login_body" where
  "alice_login st =
     Inr \<lparr>login_username = Some (JStr ''alice''), login_password = Some (JStr ''wonderland''),
          login_state = Some (JStr st)\<rparr>"

definition alice_data :: user_data where
  "alice_data = \<lparr>ud_id = ''u1'', ud_username = ''alice'', ud_email = ''alice@example.com'',
                 ud_name = ''Alice''\<rparr>"

definition client_c1 :: client_data where
  "client_c1 = \<lparr>client_id = JStr ''C1'', redirectUris = [''https://app/cb''],
                grants = [''authorization_code'', ''refresh_token''], client_scope = JStr ''read''\<rparr>"

definition bob_registration :: "json \<Rightarrow> exn + register_body" where
  "bob_registration pw =
     Inr \<lparr>reg_username = Some (JStr ''bob''), reg_email = Some (JStr ''bob@example.com''),
          reg_name = Some (JStr ''Bob''), reg_password = Some pw\<rparr>"

definition bob_data :: "json \<Rightarrow> create_user_data" where
  "bob_data pw =
     \<lparr>new_username = JStr ''bob'', new_email = JStr ''bob@example.com'', new_name = JStr ''Bob'',
      new_password = pw\<rparr>"

section \<open>Lemmas on the handlers\<close>

subsection \<open>Query parameters\<close>

lemma map_of_filter_other:
  "k' \<noteq> k \<Longrightarrow> map_of (filter (\<lambda>q. fst q \<noteq> k) ps) k' = map_of ps k'"
  by (induction ps) auto

lemma map_of_params_set_same: "map_of (params_set ps k v) k = Some v"
  by (induction ps) auto

lemma map_of_params_set_other:
  "k' \<noteq> k \<Longrightarrow> map_of (params_set ps k v) k' = map_of ps k'"
  by (induction ps) (auto simp: map_of_filter_other)

lemma redirectUrl_code:
  "redirectUrl e parsed code info = Inr r \<Longrightarrow> map_of (searchParams r) ''code'' = Some code"
  by (auto simp: redirectUrl_def url_set_def Let_def map_of_params_set_same
        map_of_params_set_other split: option.splits if_splits sum.splits)

lemma redirectUrl_base:
  "redirectUrl e parsed code info = Inr r \<Longrightarrow> url_base r = url_base parsed"
  by (auto simp: redirectUrl_def url_set_def Let_def split: option.splits if_splits sum.splits)

lemma redirectUrl_state:
  "redirectUrl e parsed code info = Inr r \<Longrightarrow> property info ''state'' = Some st \<Longrightarrow>
     truthy (Some st) \<Longrightarrow>
     \<exists>str. String_of e st = Inr str \<and> map_of (searchParams r) ''state'' = Some str"
  by (auto simp: redirectUrl_def url_set_def Let_def map_of_params_set_same
        split: option.splits if_splits sum.splits)

lemma redirectUrl_no_state:
  "redirectUrl e parsed code info = Inr r \<Longrightarrow> \<not> truthy (property info ''state'') \<Longrightarrow>
     searchParams r = params_set (searchParams parsed) ''code'' code"
  by (auto simp: redirectUrl_def url_set_def Let_def split: option.splits if_splits sum.splits)

lemma redirectUrl_throws:
  "redirectUrl e parsed code info = Inl x \<Longrightarrow>
     \<exists>st. property info ''state'' = Some st \<and> truthy (Some st) \<and> String_of e st = Inl x"
  by (auto simp: redirectUrl_def Let_def split: option.splits if_splits sum.splits)

subsection \<open>What a persisted code and a redirect response imply\<close>

lemma oauth_flow_Saved:
  assumes "Saved cd cl ud \<in> set (snd (oauth_flow e u s))"
  shows "\<exists>info cid app code.
           JSON_parse_atob e s = Some info \<and> info \<noteq> JNull \<and>
           property info ''clientId'' = Some cid \<and> truthy (Some cid) \<and>
           getOAuthApplicationByClientId e cid = Inr (Some app) \<and>
           generateAuthorizationCode e cid (userData u) (scope_or_read info) = Inr code \<and>
           cd = codeData e code info \<and> cl = clientData cid app \<and> ud = userData u \<and>
           saveAuthorizationCode e cd cl ud = None \<and>
           snd (oauth_flow e u s) = [Saved cd cl ud] \<and>
           fst (oauth_flow e u s) =
             (case new_URL e (property info ''redirectUri'') of
                Inl x \<Rightarrow> Inl x
              | Inr parsed \<Rightarrow>
                  (case redirectUrl e parsed code info of
                     Inl x \<Rightarrow> Inl x
                   | Inr r \<Rightarrow> Inr (Json_redirect r)))"
  using assms unfolding oauth_flow_def
  by (auto split: option.splits json.splits sum.splits if_splits)

lemma oauth_flow_redirect:
  assumes "fst (oauth_flow e u s) = Inr (Json_redirect r)"
  shows "\<exists>cd cl ud. Saved cd cl ud \<in> set (snd (oauth_flow e u s))"
  using assms unfolding oauth_flow_def
  by (auto split: option.splits json.splits sum.splits if_splits)

lemma oauth_flow_Saved_conv:
  assumes "JSON_parse_atob e s = Some info" "info \<noteq> JNull"
    "property info ''clientId'' = Some cid" "truthy (Some cid)"
    "getOAuthApplicationByClientId e cid = Inr (Some app)"
    "generateAuthorizationCode e cid (userData u) (scope_or_read info) = Inr code"
    "saveAuthorizationCode e (codeData e code info) (clientData cid app) (userData u) = None"
  shows "snd (oauth_flow e u s) = [Saved (codeData e code info) (clientData cid app) (userData u)]"
  using assms unfolding oauth_flow_def
  by (auto split: option.splits json.splits sum.splits if_splits)

lemma direct_login_no_Saved: "Saved cd cl ud \<notin> set (snd (direct_login e u))"
  unfolding direct_login_def by (auto split: sum.splits)

lemma direct_login_not_redirect: "fst (direct_login e u) \<noteq> Inr (Json_redirect r)"
  unfolding direct_login_def by (auto split: sum.splits)

lemma login_try_Saved:
  assumes "Saved cd cl ud \<in> set (snd (login_try e uname pw st))"
  shows "\<exists>u s. getUserByUsername e uname = Inr (Some u) \<and>
           verifyPassword e pw (password_hash u) = Inr True \<and>
           st = Some s \<and> truthy (Some s) \<and> login_try e uname pw st = oauth_flow e u s"
  using assms direct_login_no_Saved unfolding login_try_def
  by (auto split: option.splits sum.splits if_splits)

lemma login_try_redirect:
  assumes "fst (login_try e uname pw st) = Inr (Json_redirect r)"
  shows "\<exists>u s. getUserByUsername e uname = Inr (Some u) \<and>
           verifyPassword e pw (password_hash u) = Inr True \<and>
           st = Some s \<and> truthy (Some s) \<and> login_try e uname pw st = oauth_flow e u s"
  using assms direct_login_not_redirect unfolding login_try_def
  by (auto split: option.splits sum.splits if_splits)

lemma with_connection_Saved:
  "Saved cd cl ud \<in> set (snd (with_connection e l b)) \<Longrightarrow>
     connect e = None \<and> Saved cd cl ud \<in> set (snd b)"
  unfolding with_connection_def internal_error_def
  by (auto split: option.splits sum.splits)

lemma with_connection_redirect:
  "fst (with_connection e l b) = Json_redirect r \<Longrightarrow>
     connect e = None \<and> disconnect e = None \<and> fst b = Inr (Json_redirect r) \<and>
     snd (with_connection e l b) = Connected # snd b @ [Disconnect]"
  unfolding with_connection_def internal_error_def
  by (auto split: option.splits sum.splits)

lemma with_connection_connected:
  "connect e = None \<Longrightarrow>
     snd (with_connection e l b) =
       Connected # snd b @ Disconnect #
         (case disconnect e of
            Some x \<Rightarrow> [ConsoleError l x]
          | None \<Rightarrow> (case fst b of Inl x \<Rightarrow> [ConsoleError l x] | Inr r \<Rightarrow> [])) \<and>
     fst (with_connection e l b) =
       (case disconnect e of
          Some x \<Rightarrow> Json_message ''Internal server error'' 500
        | None \<Rightarrow> (case fst b of Inl x \<Rightarrow> Json_message ''Internal server error'' 500 | Inr r \<Rightarrow> r))"
  unfolding with_connection_def
  by (auto split: option.splits sum.splits)

lemma with_connection_not_connected:
  "connect e = Some x \<Longrightarrow> with_connection e l b = internal_error l x"
  unfolding with_connection_def by simp

lemma login_cases:
  "(\<exists>x. req = Inl x \<and> login e req = internal_error ''Login error:'' x) \<or>
   (\<exists>body. req = Inr body \<and>
      \<not> (truthy (login_username body) \<and> truthy (login_password body)) \<and>
      login e req = (Json_message ''Username and password are required'' 400, [])) \<or>
   (\<exists>body uname pw. req = Inr body \<and>
      login_username body = Some uname \<and> truthy (Some uname) \<and>
      login_password body = Some pw \<and> truthy (Some pw) \<and>
      login e req = with_connection e ''Login error:'' (login_try e uname pw (login_state body)))"
proof (cases req)
  case (Inl x)
  then show ?thesis
    by (simp add: login_def)
next
  case (Inr body)
  then show ?thesis
    by (cases "login_username body"; cases "login_password body") (auto simp: login_def)
qed

lemma login_Saved:
  assumes "Saved cd cl ud \<in> set (snd (login e req))"
  shows "\<exists>body uname pw. req = Inr body \<and>
           login_username body = Some uname \<and> truthy (Some uname) \<and>
           login_password body = Some pw \<and> truthy (Some pw) \<and> connect e = None \<and>
           login e req = with_connection e ''Login error:'' (login_try e uname pw (login_state body)) \<and>
           Saved cd cl ud \<in> set (snd (login_try e uname pw (login_state body)))"
  using login_cases [of req e] assms
  by (auto simp: internal_error_def dest: with_connection_Saved)

lemma login_redirect:
  assumes "fst (login e req) = Json_redirect r"
  shows "\<exists>body uname pw. req = Inr body \<and>
           login_username body = Some uname \<and> truthy (Some uname) \<and>
           login_password body = Some pw \<and> truthy (Some pw) \<and>
           login e req = with_connection e ''Login error:'' (login_try e uname pw (login_state body))"
  using login_cases [of req e] assms
  by (auto simp: internal_error_def)

lemma login_Saved_full:
  assumes "Saved cd cl ud \<in> set (snd (login e req))"
  shows "\<exists>body uname pw s u info cid app code.
           req = Inr body \<and> login_username body = Some uname \<and> truthy (Some uname) \<and>
           login_password body = Some pw \<and> truthy (Some pw) \<and> connect e = None \<and>
           getUserByUsername e uname = Inr (Some u) \<and>
           verifyPassword e pw (password_hash u) = Inr True \<and>
           login_state body = Some s \<and> truthy (Some s) \<and>
           JSON_parse_atob e s = Some info \<and> info \<noteq> JNull \<and>
           property info ''clientId'' = Some cid \<and> truthy (Some cid) \<and>
           getOAuthApplicationByClientId e cid = Inr (Some app) \<and>
           generateAuthorizationCode e cid (userData u) (scope_or_read info) = Inr code \<and>
           cd = codeData e code info \<and> cl = clientData cid app \<and> ud = userData u \<and>
           saveAuthorizationCode e cd cl ud = None \<and>
           login e req = with_connection e ''Login error:'' (oauth_flow e u s) \<and>
           snd (oauth_flow e u s) = [Saved cd cl ud] \<and>
           fst (oauth_flow e u s) =
             (case new_URL e (property info ''redirectUri'') of
                Inl x \<Rightarrow> Inl x
              | Inr parsed \<Rightarrow>
                  (case redirectUrl e parsed code info of
                     Inl x \<Rightarrow> Inl x
                   | Inr r \<Rightarrow> Inr (Json_redirect r)))"
proof -
  from login_Saved [OF assms] obtain body uname pw where
    b: "req = Inr body" "login_username body = Some uname" "truthy (Some uname)"
       "login_password body = Some pw" "truthy (Some pw)" "connect e = None"
       "login e req = with_connection e ''Login error:'' (login_try e uname pw (login_state body))"
       "Saved cd cl ud \<in> set (snd (login_try e uname pw (login_state body)))"
    by blast
  from login_try_Saved [OF b(8)] obtain u s where
    t: "getUserByUsername e uname = Inr (Some u)"
       "verifyPassword e pw (password_hash u) = Inr True"
       "login_state body = Some s" "truthy (Some s)"
       "login_try e uname pw (login_state body) = oauth_flow e u s"
    by blast
  from b(8) t(5) have "Saved cd cl ud \<in> set (snd (oauth_flow e u s))"
    by simp
  from oauth_flow_Saved [OF this] obtain info cid app code where
    f: "JSON_parse_atob e s = Some info" "info \<noteq> JNull"
       "property info ''clientId'' = Some cid" "truthy (Some cid)"
       "getOAuthApplicationByClientId e cid = Inr (Some app)"
       "generateAuthorizationCode e cid (userData u) (scope_or_read info) = Inr code"
       "cd = codeData e code info" "cl = clientData cid app" "ud = userData u"
       "saveAuthorizationCode e cd cl ud = None"
       "snd (oauth_flow e u s) = [Saved cd cl ud]"
       "fst (oauth_flow e u s) =
          (case new_URL e (property info ''redirectUri'') of
             Inl x \<Rightarrow> Inl x
           | Inr parsed \<Rightarrow>
               (case redirectUrl e parsed code info of
                  Inl x \<Rightarrow> Inl x
                | Inr r \<Rightarrow> Inr (Json_redirect r)))"
    by blast
  from b(7) t(5) have "login e req = with_connection e ''Login error:'' (oauth_flow e u s)"
    by simp
  with b t f show ?thesis
    by blast
qed

lemma login_Saved_conv:
  assumes "login_username body = Some uname" "truthy (Some uname)"
    "login_password body = Some pw" "truthy (Some pw)" "connect e = None"
    "getUserByUsername e uname = Inr (Some u)"
    "verifyPassword e pw (password_hash u) = Inr True"
    "login_state body = Some s" "truthy (Some s)"
    "JSON_parse_atob e s = Some info" "info \<noteq> JNull"
    "property info ''clientId'' = Some cid" "truthy (Some cid)"
    "getOAuthApplicationByClientId e cid = Inr (Some app)"
    "generateAuthorizationCode e cid (userData u) (scope_or_read info) = Inr code"
    "saveAuthorizationCode e (codeData e code info) (clientData cid app) (userData u) = None"
  shows "Saved (codeData e code info) (clientData cid app) (userData u) \<in> set (snd (login e (Inr body)))"
proof -
  have "login_try e uname pw (login_state body) = oauth_flow e u s"
    using assms(6-9) by (simp add: login_try_def)
  moreover have "snd (oauth_flow e u s) =
      [Saved (codeData e code info) (clientData cid app) (userData u)]"
    using assms(10-16) by (rule oauth_flow_Saved_conv)
  moreover have "login e (Inr body) =
      with_connection e ''Login error:'' (login_try e uname pw (login_state body))"
    using assms(1-4) by (simp add: login_def)
  ultimately show ?thesis
    using with_connection_connected [OF assms(5), of "''Login error:''" "oauth_flow e u s"]
    by simp
qed

lemma login_redirect_full:
  assumes "fst (login e req) = Json_redirect r"
  shows "\<exists>body s u info cid parsed code cd cl ud.
           req = Inr body \<and> login_state body = Some s \<and> JSON_parse_atob e s = Some info \<and>
           property info ''clientId'' = Some cid \<and>
           generateAuthorizationCode e cid (userData u) (scope_or_read info) = Inr code \<and>
           new_URL e (property info ''redirectUri'') = Inr parsed \<and>
           redirectUrl e parsed code info = Inr r \<and>
           authorizationCode cd = code \<and> ud = userData u \<and>
           saveAuthorizationCode e cd cl ud = None \<and>
           snd (login e req) = [Connected, Saved cd cl ud, Disconnect]"
proof -
  from login_redirect [OF assms] obtain body uname pw where
    b: "req = Inr body"
       "login e req = with_connection e ''Login error:'' (login_try e uname pw (login_state body))"
    by blast
  let ?t = "login_try e uname pw (login_state body)"
  from assms b(2) have "fst (with_connection e ''Login error:'' ?t) = Json_redirect r"
    by simp
  from with_connection_redirect [OF this] have
    w: "fst ?t = Inr (Json_redirect r)"
       "snd (with_connection e ''Login error:'' ?t) = Connected # snd ?t @ [Disconnect]"
    by simp_all
  from login_try_redirect [OF w(1)] obtain u s where
    t: "login_state body = Some s" "?t = oauth_flow e u s"
    by blast
  from w(1) t(2) have r: "fst (oauth_flow e u s) = Inr (Json_redirect r)"
    by simp
  from oauth_flow_redirect [OF r] obtain cd cl ud where
    "Saved cd cl ud \<in> set (snd (oauth_flow e u s))"
    by blast
  from oauth_flow_Saved [OF this] obtain info cid code where
    f: "JSON_parse_atob e s = Some info" "property info ''clientId'' = Some cid"
       "generateAuthorizationCode e cid (userData u) (scope_or_read info) = Inr code"
       "cd = codeData e code info" "ud = userData u"
       "saveAuthorizationCode e cd cl ud = None"
       "snd (oauth_flow e u s) = [Saved cd cl ud]"
       "fst (oauth_flow e u s) =
          (case new_URL e (property info ''redirectUri'') of
             Inl x \<Rightarrow> Inl x
           | Inr parsed \<Rightarrow>
               (case redirectUrl e parsed code info of
                  Inl x \<Rightarrow> Inl x
                | Inr r \<Rightarrow> Inr (Json_redirect r)))"
    by blast
  from r f(8) obtain parsed where
    p: "new_URL e (property info ''redirectUri'') = Inr parsed"
       "redirectUrl e parsed code info = Inr r"
    by (auto split: sum.splits)
  have "authorizationCode cd = code"
    using f(4) by (simp add: codeData_def)
  moreover have "snd (login e req) = [Connected, Saved cd cl ud, Disconnect]"
    using b(2) w(2) t(2) f(7) by simp
  ultimately show ?thesis
    using b(1) t(1) f(1,2,3,5,6) p by blast
qed

subsection \<open>Connection events of the two handlers\<close>

lemma oauth_flow_connection_events: "connection_events (snd (oauth_flow e u s)) = []"
  unfolding oauth_flow_def connection_events_def
  by (auto split: option.splits json.splits sum.splits if_splits)

lemma direct_login_connection_events: "connection_events (snd (direct_login e u)) = []"
  unfolding direct_login_def connection_events_def
  by (auto split: sum.splits)

lemma login_try_connection_events: "connection_events (snd (login_try e uname pw st)) = []"
  unfolding login_try_def
  using oauth_flow_connection_events direct_login_connection_events
  by (auto simp: connection_events_def split: option.splits sum.splits if_splits)

lemma register_try_connection_events: "connection_events (snd (register_try e d)) = []"
  unfolding register_try_def connection_events_def
  by (auto split: option.splits sum.splits)

lemma with_connection_connection_events:
  assumes "connection_events (snd b) = []"
  shows "connection_events (snd (with_connection e l b)) =
           (if connect e = None then [Connected, Disconnect] else [])"
  using assms unfolding with_connection_def internal_error_def connection_events_def
  by (auto split: option.splits sum.splits)

subsection \<open>What a created user implies\<close>




lemma register_cases:
  "(\<exists>x. req = Inl x \<and> register e req = internal_error ''Registration error:'' x) \<or>
   (\<exists>body. req = Inr body \<and>
      \<not> (truthy (reg_username body) \<and> truthy (reg_email body) \<and> truthy (reg_name body) \<and>
         truthy (reg_password body)) \<and>
      register e req = (Json_message ''All fields are required'' 400, [])) \<or>
   (\<exists>body pw x. req = Inr body \<and> reg_password body = Some pw \<and> truthy (Some pw) \<and>
      password_length_less_than_6 e pw = Inl x \<and>
      register e req = internal_error ''Registration error:'' x) \<or>
   (\<exists>body pw. req = Inr body \<and> reg_password body = Some pw \<and> truthy (Some pw) \<and>
      password_length_less_than_6 e pw = Inr True \<and>
      register e req = (Json_message ''Password must be at least 6 characters long'' 400, [])) \<or>
   (\<exists>body uname mail nm pw. req = Inr body \<and>
      reg_username body = Some uname \<and> reg_email body = Some mail \<and>
      reg_name body = Some nm \<and> reg_password body = Some pw \<and>
      truthy (Some uname) \<and> truthy (Some mail) \<and> truthy (Some nm) \<and> truthy (Some pw) \<and>
      password_length_less_than_6 e pw = Inr False \<and>
      register e req =
        with_connection e ''Registration error:''
          (register_try e
             \<lparr>new_username = uname, new_email = mail, new_name = nm, new_password = pw\<rparr>))"
proof (cases req)
  case (Inl x)
  then show ?thesis
    by (simp add: register_def)
next
  case (Inr body)
  then show ?thesis
    by (cases "reg_username body"; cases "reg_email body"; cases "reg_name body";
        cases "reg_password body")
       (auto simp: register_def split: sum.splits bool.splits)
qed

lemma password_length_string:
  "password_length_less_than_6 e (JStr s) = Inr (length s < 6)"
  by (simp add: password_length_less_than_6_def less_than_def)

subsection \<open>The sample deployment, evaluated\<close>

lemmas sample_defs = sample_env_def sample_states_def sample_JSON_parse_atob_def
  sample_new_URL_def alice_login_def alice_def app_c1_def alice_data_def client_c1_def

lemmas handler_defs = login_def with_connection_def login_try_def oauth_flow_def
  direct_login_def codeData_def clientData_def userData_def redirectUrl_def url_set_def
  String_of_def scope_or_read_def split_newline_def internal_error_def
  createSessionToken_def session_payload_of_def

lemmas register_defs = register_def with_connection_def register_try_def internal_error_def
  password_length_less_than_6_def less_than_def bob_registration_def bob_data_def
  sample_env_def

lemma sample_login_ok:
  "login sample_env (alice_login ''state-ok'') =
     (Json_redirect
        \<lparr>url_base = ''https://app/cb'',
         searchParams = [(''code'', ''code-1''), (''state'', ''xyz'')]\<rparr>,
      [Connected,
       Saved \<lparr>authorizationCode = ''code-1'', expiresAt = 1600000,
              redirectUri = Some (JStr ''https://app/cb''), scope = JArr [JStr ''read''],
              codeChallenge = None, codeChallengeMethod = None\<rparr>
         client_c1 alice_data,
       Disconnect])"
  by (simp add: sample_defs handler_defs)

lemma sample_login_no_scope:
  "login sample_env (alice_login ''state-no-scope'') =
     (Json_redirect \<lparr>url_base = ''https://app/cb'', searchParams = [(''code'', ''code-1'')]\<rparr>,
      [Connected,
       Saved \<lparr>authorizationCode = ''code-1'', expiresAt = 1600000,
              redirectUri = Some (JStr ''https://app/cb''), scope = JArr [JStr ''read''],
              codeChallenge = None, codeChallengeMethod = None\<rparr>
         client_c1 alice_data,
       Disconnect])"
  by (simp add: sample_defs handler_defs)

lemma sample_login_empty_state:
  "login sample_env (alice_login ''state-empty-state'') =
     (Json_redirect \<lparr>url_base = ''https://app/cb'', searchParams = [(''code'', ''code-1'')]\<rparr>,
      [Connected,
       Saved \<lparr>authorizationCode = ''code-1'', expiresAt = 1600000,
              redirectUri = Some (JStr ''https://app/cb''), scope = JArr [JStr ''read''],
              codeChallenge = None, codeChallengeMethod = None\<rparr>
         client_c1 alice_data,
       Disconnect])"
  by (simp add: sample_defs handler_defs)

lemma sample_login_other_uri:
  "login sample_env (alice_login ''state-other-uri'') =
     (Json_redirect
        \<lparr>url_base = ''https://evil.example/cb'',
         searchParams = [(''code'', ''code-1''), (''state'', ''xyz'')]\<rparr>,
      [Connected,
       Saved \<lparr>authorizationCode = ''code-1'', expiresAt = 1600000,
              redirectUri = Some (JStr ''https://evil.example/cb''), scope = JArr [JStr ''read''],
              codeChallenge = None, codeChallengeMethod = None\<rparr>
         client_c1 alice_data,
       Disconnect])"
  by (simp add: sample_defs handler_defs)

lemma sample_login_admin:
  "login sample_env (alice_login ''state-admin'') =
     (Json_redirect \<lparr>url_base = ''https://app/cb'', searchParams = [(''code'', ''code-1'')]\<rparr>,
      [Connected,
       Saved \<lparr>authorizationCode = ''code-1'', expiresAt = 1600000,
              redirectUri = Some (JStr ''https://app/cb''), scope = JArr [JStr ''admin''],
              codeChallenge = None, codeChallengeMethod = None\<rparr>
         client_c1 alice_data,
       Disconnect])"
  by (simp add: sample_defs handler_defs)

lemma sample_login_no_uri:
  "login sample_env (alice_login ''state-no-uri'') =
     (Json_message ''Internal server error'' 500,
      [Connected,
       Saved \<lparr>authorizationCode = ''code-1'', expiresAt = 1600000,
              redirectUri = None, scope = JArr [JStr ''read''],
              codeChallenge = None, codeChallengeMethod = None\<rparr>
         client_c1 alice_data,
       Disconnect,
       ConsoleError ''Login error:'' TypeError])"
  by (simp add: sample_defs handler_defs)

lemma sample_login_object_state:
  "login sample_env (alice_login ''state-object-state'') =
     (Json_message ''Internal server error'' 500,
      [Connected,
       Saved \<lparr>authorizationCode = ''code-1'', expiresAt = 1600000,
              redirectUri = Some (JStr ''https://app/cb''), scope = JArr [JStr ''read''],
              codeChallenge = None, codeChallengeMethod = None\<rparr>
         client_c1 alice_data,
       Disconnect,
       ConsoleError ''Login error:'' TypeError])"
  by (simp add: sample_defs handler_defs)

lemma sample_login_disconnect_throws:
  "login (sample_env\<lparr>disconnect := Some x\<rparr>) (alice_login ''state-ok'') =
     (Json_message ''Internal server error'' 500,
      [Connected,
       Saved \<lparr>authorizationCode = ''code-1'', expiresAt = 1600000,
              redirectUri = Some (JStr ''https://app/cb''), scope = JArr [JStr ''read''],
              codeChallenge = None, codeChallengeMethod = None\<rparr>
         client_c1 alice_data,
       Disconnect,
       ConsoleError ''Login error:'' x])"
  by (simp add: sample_defs handler_defs)

lemma sample_login_save_throws:
  assumes "st = ''state-other-uri'' \<or> st = ''state-admin''"
  shows "login (sample_env\<lparr>saveAuthorizationCode := \<lambda>cd cl u. Some x\<rparr>) (alice_login st) =
         (Json_message ''Internal server error'' 500,
          [Connected, Disconnect, ConsoleError ''Login error:'' x])"
  using assms by (elim disjE) (simp_all add: sample_defs handler_defs)



lemma sample_register_lookup_throws:
  "register (sample_env\<lparr>getUserByUsername := \<lambda>n. Inl x\<rparr>) (bob_registration (JStr ''builder'')) =
     (Json_message ''Internal server error'' 500,
      [Connected, Disconnect, ConsoleError ''Registration error:'' x])"
  by (simp add: register_defs)

section \<open>The claims\<close>

text \<open>
  C1 (as the handler has it). The login handler persists an authorization code exactly
  when the credentials verify, the \<open>state\<close> decodes to request information whose
  truthy \<open>clientId\<close> names a registered application, \<^verbatim>\<open>generateAuthorizationCode\<close>
  returns a code and \<^verbatim>\<open>saveAuthorizationCode\<close> returns. The handler hands that call
  the presented \<open>redirectUri\<close> and the client's registered redirect URIs and does not
  compare them itself.
\<close>

theorem code_issued_without_redirect_check:
  "Saved cd cl ud \<in> set (snd (login e req)) \<longleftrightarrow>
     (\<exists>body uname pw u s info cid app code.
        req = Inr body \<and> login_username body = Some uname \<and> truthy (Some uname) \<and>
        login_password body = Some pw \<and> truthy (Some pw) \<and> connect e = None \<and>
        getUserByUsername e uname = Inr (Some u) \<and>
        verifyPassword e pw (password_hash u) = Inr True \<and>
        login_state body = Some s \<and> truthy (Some s) \<and>
        JSON_parse_atob e s = Some info \<and> info \<noteq> JNull \<and>
        property info ''clientId'' = Some cid \<and> truthy (Some cid) \<and>
        getOAuthApplicationByClientId e cid = Inr (Some app) \<and>
        generateAuthorizationCode e cid (userData u) (scope_or_read info) = Inr code \<and>
        cd = codeData e code info \<and> cl = clientData cid app \<and> ud = userData u \<and>
        redirectUri cd = property info ''redirectUri'' \<and>
        redirectUris cl = split_newline (redirect_uri app) \<and>
        saveAuthorizationCode e cd cl ud = None)"
  (is "?L \<longleftrightarrow> ?R")
proof
  assume ?L
  from login_Saved_full [OF this] obtain body uname pw s u info cid app code where
    f: "req = Inr body" "login_username body = Some uname" "truthy (Some uname)"
       "login_password body = Some pw" "truthy (Some pw)" "connect e = None"
       "getUserByUsername e uname = Inr (Some u)"
       "verifyPassword e pw (password_hash u) = Inr True"
       "login_state body = Some s" "truthy (Some s)"
       "JSON_parse_atob e s = Some info" "info \<noteq> JNull"
       "property info ''clientId'' = Some cid" "truthy (Some cid)"
       "getOAuthApplicationByClientId e cid = Inr (Some app)"
       "generateAuthorizationCode e cid (userData u) (scope_or_read info) = Inr code"
       "cd = codeData e code info" "cl = clientData cid app" "ud = userData u"
       "saveAuthorizationCode e cd cl ud = None"
    by blast
  have "redirectUri cd = property info ''redirectUri''"
    using f(17) by (simp add: codeData_def)
  moreover have "redirectUris cl = split_newline (redirect_uri app)"
    using f(18) by (simp add: clientData_def)
  ultimately show ?R
    using f by blast
next
  assume ?R
  then obtain body uname pw u s info cid app code where
    f: "req = Inr body" "login_username body = Some uname" "truthy (Some uname)"
       "login_password body = Some pw" "truthy (Some pw)" "connect e = None"
       "getUserByUsername e uname = Inr (Some u)"
       "verifyPassword e pw (password_hash u) = Inr True"
       "login_state body = Some s" "truthy (Some s)"
       "JSON_parse_atob e s = Some info" "info \<noteq> JNull"
       "property info ''clientId'' = Some cid" "truthy (Some cid)"
       "getOAuthApplicationByClientId e cid = Inr (Some app)"
       "generateAuthorizationCode e cid (userData u) (scope_or_read info) = Inr code"
       "cd = codeData e code info" "cl = clientData cid app" "ud = userData u"
       "saveAuthorizationCode e cd cl ud = None"
    by blast
  from f(20) have "saveAuthorizationCode e (codeData e code info) (clientData cid app)
      (userData u) = None"
    by (simp add: f(17-19))
  from login_Saved_conv [OF f(2-16) this] show ?L
    by (simp add: f(1,17-19))
qed

theorem code_issued_without_redirect_check_witness:
  "Saved \<lparr>authorizationCode = ''code-1'', expiresAt = 1600000,
          redirectUri = Some (JStr ''https://app/cb''), scope = JArr [JStr ''read''],
          codeChallenge = None, codeChallengeMethod = None\<rparr> client_c1 alice_data
     \<in> set (snd (login sample_env (alice_login ''state-ok''))) \<and>
   saveAuthorizationCode sample_env
     \<lparr>authorizationCode = ''code-1'', expiresAt = 1600000,
      redirectUri = Some (JStr ''https://app/cb''), scope = JArr [JStr ''read''],
      codeChallenge = None, codeChallengeMethod = None\<rparr> client_c1 alice_data = None"
proof -
  let ?cd = "\<lparr>authorizationCode = ''code-1'', expiresAt = 1600000,
          redirectUri = Some (JStr ''https://app/cb''), scope = JArr [JStr ''read''],
          codeChallenge = None, codeChallengeMethod = None\<rparr>"
  have h: "Saved ?cd client_c1 alice_data
      \<in> set (snd (login sample_env (alice_login ''state-ok'')))"
    by (simp add: sample_login_ok)
  from iffD1 [OF code_issued_without_redirect_check h]
  have "saveAuthorizationCode sample_env ?cd client_c1 alice_data = None"
    by blast
  with h show ?thesis
    by blast
qed

text \<open>
  C1 as stated fails. The client's only registered redirect URI is
  \<^verbatim>\<open>https://app/cb\<close>; a request presenting \<^verbatim>\<open>https://evil.example/cb\<close> gets the
  code, persisted and in the redirect to that URI. And were \<^verbatim>\<open>saveAuthorizationCode\<close>
  to reject the request, the handler would answer with the 500 of its outer
  \<^verbatim>\<open>catch\<close>, not with an invalid-request error.
\<close>

theorem unregistered_redirect_uri_gets_code:
  "''https://evil.example/cb'' \<notin> set (split_newline (redirect_uri app_c1)) \<and>
   login sample_env (alice_login ''state-other-uri'') =
     (Json_redirect
        \<lparr>url_base = ''https://evil.example/cb'',
         searchParams = [(''code'', ''code-1''), (''state'', ''xyz'')]\<rparr>,
      [Connected,
       Saved \<lparr>authorizationCode = ''code-1'', expiresAt = 1600000,
              redirectUri = Some (JStr ''https://evil.example/cb''), scope = JArr [JStr ''read''],
              codeChallenge = None, codeChallengeMethod = None\<rparr>
         client_c1 alice_data,
       Disconnect]) \<and>
   login (sample_env\<lparr>saveAuthorizationCode := \<lambda>cd cl u. Some (ServiceError ''invalid_request'')\<rparr>)
     (alice_login ''state-other-uri'') =
     (Json_message ''Internal server error'' 500,
      [Connected, Disconnect, ConsoleError ''Login error:'' (ServiceError ''invalid_request'')])"
proof -
  have "''https://evil.example/cb'' \<notin> set (split_newline (redirect_uri app_c1))"
    by (simp add: app_c1_def split_newline_def)
  moreover have "login (sample_env\<lparr>saveAuthorizationCode :=
        \<lambda>cd cl u. Some (ServiceError ''invalid_request'')\<rparr>)
      (alice_login ''state-other-uri'') =
     (Json_message ''Internal server error'' 500,
      [Connected, Disconnect, ConsoleError ''Login error:'' (ServiceError ''invalid_request'')])"
    by (rule sample_login_save_throws) simp
  ultimately show ?thesis
    using sample_login_other_uri by simp
qed

text \<open>
  C2 (as the handler has it). A code the login handler persists carries the requested
  scope as it came (an array as it is, another truthy value as a one-element array,
  \<^verbatim>\<open>["read"]\<close> otherwise). The handler hands the scopes of the registered
  application to \<^verbatim>\<open>saveAuthorizationCode\<close> and does not compare the two itself; the
  code is persisted only if that call returns.
\<close>

theorem requested_scope_passed_unchecked:
  assumes "Saved cd cl ud \<in> set (snd (login e (Inr body)))"
    and "login_state body = Some s"
    and "JSON_parse_atob e s = Some info"
  shows "scope cd =
           (case property info ''scope'' of
              None \<Rightarrow> JArr [JStr ''read'']
            | Some (JArr xs) \<Rightarrow> JArr xs
            | Some v \<Rightarrow> (if truthy (Some v) then JArr [v] else JArr [JStr ''read''])) \<and>
         (\<exists>app. getOAuthApplicationByClientId e (client_id cl) = Inr (Some app) \<and>
                client_scope cl = scopes app) \<and>
         saveAuthorizationCode e cd cl ud = None"
proof -
  from login_Saved_full [OF assms(1)] obtain s' info' cid app code where
    f: "login_state body = Some s'" "JSON_parse_atob e s' = Some info'"
       "getOAuthApplicationByClientId e cid = Inr (Some app)"
       "cd = codeData e code info'" "cl = clientData cid app"
       "saveAuthorizationCode e cd cl ud = None"
    by blast
  from f(1,2) assms(2,3) have i: "info' = info"
    by simp
  have "scope cd =
           (case property info ''scope'' of
              None \<Rightarrow> JArr [JStr ''read'']
            | Some (JArr xs) \<Rightarrow> JArr xs
            | Some v \<Rightarrow> (if truthy (Some v) then JArr [v] else JArr [JStr ''read'']))"
    using f(4) i by (simp add: codeData_def)
  moreover have "getOAuthApplicationByClientId e (client_id cl) = Inr (Some app) \<and>
      client_scope cl = scopes app"
    using f(3,5) by (simp add: clientData_def)
  ultimately show ?thesis
    using f(6) by blast
qed

theorem requested_scope_passed_unchecked_witness:
  "Saved \<lparr>authorizationCode = ''code-1'', expiresAt = 1600000,
          redirectUri = Some (JStr ''https://app/cb''), scope = JArr [JStr ''read''],
          codeChallenge = None, codeChallengeMethod = None\<rparr> client_c1 alice_data
     \<in> set (snd (login sample_env (alice_login ''state-ok''))) \<and>
   (\<exists>app. getOAuthApplicationByClientId sample_env (JStr ''C1'') = Inr (Some app) \<and>
          JStr ''read'' = scopes app)"
proof -
  let ?cd = "\<lparr>authorizationCode = ''code-1'', expiresAt = 1600000,
          redirectUri = Some (JStr ''https://app/cb''), scope = JArr [JStr ''read''],
          codeChallenge = None, codeChallengeMethod = None\<rparr>"
  let ?body = "\<lparr>login_username = Some (JStr ''alice''),
                login_password = Some (JStr ''wonderland''),
                login_state = Some (JStr ''state-ok'')\<rparr>"
  let ?info = "JObj [(''clientId'', JStr ''C1''), (''redirectUri'', JStr ''https://app/cb''),
                     (''scope'', JArr [JStr ''read'']), (''state'', JStr ''xyz'')]"
  have h1: "Saved ?cd client_c1 alice_data \<in> set (snd (login sample_env (Inr ?body)))"
    using sample_login_ok by (simp add: alice_login_def)
  have h2: "login_state ?body = Some (JStr ''state-ok'')"
    by simp
  have h3: "JSON_parse_atob sample_env (JStr ''state-ok'') = Some ?info"
    by (simp add: sample_env_def sample_JSON_parse_atob_def sample_states_def)
  from requested_scope_passed_unchecked [OF h1 h2 h3]
  have "\<exists>app. getOAuthApplicationByClientId sample_env (JStr ''C1'') = Inr (Some app) \<and>
          JStr ''read'' = scopes app"
    by (simp add: client_c1_def)
  with h1 show ?thesis
    by (simp add: alice_login_def)
qed

text \<open>
  C2 as stated fails. The client's scope is \<^verbatim>\<open>read\<close>; a request for the scope
  \<^verbatim>\<open>["admin"]\<close> gets a code persisted with that scope and the success response. And
  were \<^verbatim>\<open>saveAuthorizationCode\<close> to reject the scope, the handler would answer with
  the 500 of its outer \<^verbatim>\<open>catch\<close>, not with an invalid-scope error.
\<close>

theorem scope_outside_client_scopes_gets_code:
  "scopes app_c1 = JStr ''read'' \<and>
   property (JObj [(''clientId'', JStr ''C1''), (''redirectUri'', JStr ''https://app/cb''),
                   (''scope'', JArr [JStr ''admin''])]) ''scope'' = Some (JArr [JStr ''admin'']) \<and>
   login sample_env (alice_login ''state-admin'') =
     (Json_redirect \<lparr>url_base = ''https://app/cb'', searchParams = [(''code'', ''code-1'')]\<rparr>,
      [Connected,
       Saved \<lparr>authorizationCode = ''code-1'', expiresAt = 1600000,
              redirectUri = Some (JStr ''https://app/cb''), scope = JArr [JStr ''admin''],
              codeChallenge = None, codeChallengeMethod = None\<rparr>
         client_c1 alice_data,
       Disconnect]) \<and>
   login (sample_env\<lparr>saveAuthorizationCode := \<lambda>cd cl u. Some (ServiceError ''invalid_scope'')\<rparr>)
     (alice_login ''state-admin'') =
     (Json_message ''Internal server error'' 500,
      [Connected, Disconnect, ConsoleError ''Login error:'' (ServiceError ''invalid_scope'')])"
proof -
  have "login (sample_env\<lparr>saveAuthorizationCode :=
        \<lambda>cd cl u. Some (ServiceError ''invalid_scope'')\<rparr>)
      (alice_login ''state-admin'') =
     (Json_message ''Internal server error'' 500,
      [Connected, Disconnect, ConsoleError ''Login error:'' (ServiceError ''invalid_scope'')])"
    by (rule sample_login_save_throws) simp
  then show ?thesis
    using sample_login_admin by (simp add: app_c1_def)
qed

text \<open>
  C3 (as the handler has it). When the login handler has persisted an authorization
  code, it answers either with the success redirect or, when a step after the save
  throws, with 500 \<^verbatim>\<open>Internal server error\<close> while the code stays persisted. The
  steps after the save are \<^verbatim>\<open>new URL\<close> on the request's \<open>redirectUri\<close>, the
  conversion of a truthy \<open>state\<close> to a string in \<^verbatim>\<open>searchParams.set\<close>, and
  \<^verbatim>\<open>db.disconnect()\<close>. Every other failure response (400, 401, and a 500 raised
  before the save) leaves no code.
\<close>

theorem persisted_code_then_redirect_or_late_failure:
  assumes "Saved cd cl ud \<in> set (snd (login e req))"
  shows "(\<exists>r parsed. fst (login e req) = Json_redirect r \<and> disconnect e = None \<and>
            new_URL e (redirectUri cd) = Inr parsed) \<or>
         (fst (login e req) = Json_message ''Internal server error'' 500 \<and>
          ((\<exists>x. disconnect e = Some x) \<or>
           (\<exists>x. new_URL e (redirectUri cd) = Inl x) \<or>
           (\<exists>body s info st x.
              req = Inr body \<and> login_state body = Some s \<and> JSON_parse_atob e s = Some info \<and>
              property info ''state'' = Some st \<and> truthy (Some st) \<and>
              String_of e st = Inl x)))"
proof -
  from login_Saved_full [OF assms] obtain body u s info code where
    f: "req = Inr body" "login_state body = Some s" "JSON_parse_atob e s = Some info"
       "connect e = None" "cd = codeData e code info"
       "login e req = with_connection e ''Login error:'' (oauth_flow e u s)"
       "fst (oauth_flow e u s) =
          (case new_URL e (property info ''redirectUri'') of
             Inl x \<Rightarrow> Inl x
           | Inr parsed \<Rightarrow>
               (case redirectUrl e parsed code info of
                  Inl x \<Rightarrow> Inl x
                | Inr r \<Rightarrow> Inr (Json_redirect r)))"
    by blast
  have r: "redirectUri cd = property info ''redirectUri''"
    using f(5) by (simp add: codeData_def)
  have w: "fst (login e req) =
       (case disconnect e of
          Some x \<Rightarrow> Json_message ''Internal server error'' 500
        | None \<Rightarrow> (case fst (oauth_flow e u s) of
                     Inl x \<Rightarrow> Json_message ''Internal server error'' 500
                   | Inr r \<Rightarrow> r))"
    using with_connection_connected [OF f(4), of "''Login error:''" "oauth_flow e u s"] f(6)
    by simp
  show ?thesis
  proof (cases "disconnect e")
    case (Some x)
    with w show ?thesis
      by simp
  next
    case None
    show ?thesis
    proof (cases "new_URL e (property info ''redirectUri'')")
      case (Inl x)
      with w None f(7) r show ?thesis
        by simp
    next
      case parsed: (Inr parsed)
      show ?thesis
      proof (cases "redirectUrl e parsed code info")
        case (Inl x)
        from redirectUrl_throws [OF this] obtain st where
          "property info ''state'' = Some st" "truthy (Some st)" "String_of e st = Inl x"
          by blast
        with f(1-3) have "\<exists>body s info st x.
              req = Inr body \<and> login_state body = Some s \<and> JSON_parse_atob e s = Some info \<and>
              property info ''state'' = Some st \<and> truthy (Some st) \<and>
              String_of e st = Inl x"
          by blast
        moreover have "fst (login e req) = Json_message ''Internal server error'' 500"
          using w None f(7) parsed Inl by simp
        ultimately show ?thesis
          by blast
      next
        case (Inr url)
        with w None f(7) parsed r show ?thesis
          by simp
      qed
    qed
  qed
qed

theorem persisted_code_then_redirect_or_late_failure_witness:
  "Saved \<lparr>authorizationCode = ''code-1'', expiresAt = 1600000,
          redirectUri = Some (JStr ''https://app/cb''), scope = JArr [JStr ''read''],
          codeChallenge = None, codeChallengeMethod = None\<rparr> client_c1 alice_data
     \<in> set (snd (login sample_env (alice_login ''state-ok''))) \<and>
   (\<exists>r. fst (login sample_env (alice_login ''state-ok'')) = Json_redirect r) \<and>
   disconnect sample_env = None \<and>
   (\<exists>parsed. new_URL sample_env (Some (JStr ''https://app/cb'')) = Inr parsed)"
proof -
  let ?cd = "\<lparr>authorizationCode = ''code-1'', expiresAt = 1600000,
          redirectUri = Some (JStr ''https://app/cb''), scope = JArr [JStr ''read''],
          codeChallenge = None, codeChallengeMethod = None\<rparr>"
  have h: "Saved ?cd client_c1 alice_data
      \<in> set (snd (login sample_env (alice_login ''state-ok'')))"
    by (simp add: sample_login_ok)
  have n: "fst (login sample_env (alice_login ''state-ok'')) \<noteq>
      Json_message ''Internal server error'' 500"
    by (simp add: sample_login_ok)
  from persisted_code_then_redirect_or_late_failure [OF h] n
  have "(\<exists>r. fst (login sample_env (alice_login ''state-ok'')) = Json_redirect r) \<and>
      disconnect sample_env = None \<and>
      (\<exists>parsed. new_URL sample_env (Some (JStr ''https://app/cb'')) = Inr parsed)"
    by auto
  with h show ?thesis
    by blast
qed

text \<open>
  C3 as stated fails. In each of the three requests below the code is persisted and the
  caller gets 500 \<^verbatim>\<open>Internal server error\<close>: the request information has no
  \<open>redirectUri\<close>, so \<^verbatim>\<open>new URL(undefined)\<close> throws; \<^verbatim>\<open>db.disconnect()\<close> throws in
  the \<^verbatim>\<open>finally\<close> block of a well-formed request; the \<open>state\<close> of the request
  information is an object that cannot be converted to a string, so
  \<^verbatim>\<open>searchParams.set\<close> throws.
\<close>

theorem code_persisted_and_error_returned:
  "login sample_env (alice_login ''state-no-uri'') =
     (Json_message ''Internal server error'' 500,
      [Connected,
       Saved \<lparr>authorizationCode = ''code-1'', expiresAt = 1600000,
              redirectUri = None, scope = JArr [JStr ''read''],
              codeChallenge = None, codeChallengeMethod = None\<rparr>
         client_c1 alice_data,
       Disconnect,
       ConsoleError ''Login error:'' TypeError]) \<and>
   login (sample_env\<lparr>disconnect := Some (ServiceError ''connection lost'')\<rparr>)
     (alice_login ''state-ok'') =
     (Json_message ''Internal server error'' 500,
      [Connected,
       Saved \<lparr>authorizationCode = ''code-1'', expiresAt = 1600000,
              redirectUri = Some (JStr ''https://app/cb''), scope = JArr [JStr ''read''],
              codeChallenge = None, codeChallengeMethod = None\<rparr>
         client_c1 alice_data,
       Disconnect,
       ConsoleError ''Login error:'' (ServiceError ''connection lost'')]) \<and>
   login sample_env (alice_login ''state-object-state'') =
     (Json_message ''Internal server error'' 500,
      [Connected,
       Saved \<lparr>authorizationCode = ''code-1'', expiresAt = 1600000,
              redirectUri = Some (JStr ''https://app/cb''), scope = JArr [JStr ''read''],
              codeChallenge = None, codeChallengeMethod = None\<rparr>
         client_c1 alice_data,
       Disconnect,
       ConsoleError ''Login error:'' TypeError])"
  using sample_login_no_uri sample_login_disconnect_throws sample_login_object_state
  by simp

text \<open>
  C4. Every authorization code the login handler persists expires exactly ten minutes
  (600000 milliseconds) after \<^verbatim>\<open>Date.now()\<close> of the request; nothing in the request
  enters the offset.
\<close>

theorem code_expires_after_ten_minutes:
  assumes "Saved cd cl ud \<in> set (snd (login e req))"
  shows "expiresAt cd = Date_now e + 10 * 60 * 1000"
proof -
  from login_Saved_full [OF assms] obtain code info where "cd = codeData e code info"
    by blast
  then show ?thesis
    by (simp add: codeData_def)
qed

theorem code_expires_after_ten_minutes_witness:
  "Saved \<lparr>authorizationCode = ''code-1'', expiresAt = 1600000,
          redirectUri = Some (JStr ''https://app/cb''), scope = JArr [JStr ''read''],
          codeChallenge = None, codeChallengeMethod = None\<rparr> client_c1 alice_data
     \<in> set (snd (login sample_env (alice_login ''state-ok''))) \<and>
   Date_now sample_env + 10 * 60 * 1000 = 1600000"
proof -
  let ?cd = "\<lparr>authorizationCode = ''code-1'', expiresAt = 1600000,
          redirectUri = Some (JStr ''https://app/cb''), scope = JArr [JStr ''read''],
          codeChallenge = None, codeChallengeMethod = None\<rparr>"
  have h: "Saved ?cd client_c1 alice_data
      \<in> set (snd (login sample_env (alice_login ''state-ok'')))"
    by (simp add: sample_login_ok)
  from code_expires_after_ten_minutes [OF h] have "Date_now sample_env + 10 * 60 * 1000 = 1600000"
    by simp
  with h show ?thesis
    by blast
qed

text \<open>
  C5. When the OAuth request information carries no \<open>scope\<close>, the persisted
  authorization code has the scope \<^verbatim>\<open>["read"]\<close>, and the code value was generated
  for that scope.
\<close>

theorem default_scope_is_read:
  assumes "Saved cd cl ud \<in> set (snd (login e (Inr body)))"
    and "login_state body = Some s"
    and "JSON_parse_atob e s = Some info"
    and "property info ''scope'' = None"
  shows "scope cd = JArr [JStr ''read''] \<and>
         generateAuthorizationCode e (client_id cl) ud (JArr [JStr ''read'']) =
           Inr (authorizationCode cd)"
proof -
  from login_Saved_full [OF assms(1)] obtain s' u info' cid app code where
    f: "login_state body = Some s'"
       "JSON_parse_atob e s' = Some info'"
       "generateAuthorizationCode e cid (userData u) (scope_or_read info') = Inr code"
       "cd = codeData e code info'" "cl = clientData cid app" "ud = userData u"
    by auto
  from f(1,2) assms(2,3) have "info' = info"
    by simp
  with f(3-6) assms(4) show ?thesis
    by (simp add: codeData_def clientData_def scope_or_read_def)
qed

theorem default_scope_is_read_witness:
  "property (JObj [(''clientId'', JStr ''C1''), (''redirectUri'', JStr ''https://app/cb'')])
     ''scope'' = None \<and>
   Saved \<lparr>authorizationCode = ''code-1'', expiresAt = 1600000,
          redirectUri = Some (JStr ''https://app/cb''), scope = JArr [JStr ''read''],
          codeChallenge = None, codeChallengeMethod = None\<rparr> client_c1 alice_data
     \<in> set (snd (login sample_env (alice_login ''state-no-scope''))) \<and>
   generateAuthorizationCode sample_env (JStr ''C1'') alice_data (JArr [JStr ''read'']) =
     Inr ''code-1''"
proof -
  let ?cd = "\<lparr>authorizationCode = ''code-1'', expiresAt = 1600000,
          redirectUri = Some (JStr ''https://app/cb''), scope = JArr [JStr ''read''],
          codeChallenge = None, codeChallengeMethod = None\<rparr>"
  let ?info = "JObj [(''clientId'', JStr ''C1''), (''redirectUri'', JStr ''https://app/cb'')]"
  let ?body = "\<lparr>login_username = Some (JStr ''alice''),
                login_password = Some (JStr ''wonderland''),
                login_state = Some (JStr ''state-no-scope'')\<rparr>"
  have h1: "Saved ?cd client_c1 alice_data \<in> set (snd (login sample_env (Inr ?body)))"
    using sample_login_no_scope by (simp add: alice_login_def)
  have h2: "login_state ?body = Some (JStr ''state-no-scope'')"
    by simp
  have h3: "JSON_parse_atob sample_env (JStr ''state-no-scope'') = Some ?info"
    by (simp add: sample_env_def sample_JSON_parse_atob_def sample_states_def)
  have h4: "property ?info ''scope'' = None"
    by simp
  from default_scope_is_read [OF h1 h2 h3 h4] have
    "generateAuthorizationCode sample_env (JStr ''C1'') alice_data (JArr [JStr ''read'']) =
       Inr ''code-1''"
    by (simp add: client_c1_def)
  with h1 h4 show ?thesis
    by (simp add: alice_login_def)
qed

text \<open>
  C6. Whenever the login handler answers with the redirect that carries an authorization
  code, \<^verbatim>\<open>saveAuthorizationCode\<close> has returned for the record of that code before the
  response was built: the request's effects are the connection, the persisted record
  and the release, and the \<open>code\<close> parameter of the redirect is the persisted code.
\<close>

theorem code_persisted_before_release:
  assumes "fst (login e req) = Json_redirect r"
  shows "\<exists>cd cl ud.
           snd (login e req) = [Connected, Saved cd cl ud, Disconnect] \<and>
           saveAuthorizationCode e cd cl ud = None \<and>
           map_of (searchParams r) ''code'' = Some (authorizationCode cd)"
proof -
  from login_redirect_full [OF assms] obtain info parsed code cd cl ud where
    f: "redirectUrl e parsed code info = Inr r" "authorizationCode cd = code"
       "saveAuthorizationCode e cd cl ud = None"
       "snd (login e req) = [Connected, Saved cd cl ud, Disconnect]"
    by blast
  from redirectUrl_code [OF f(1)] f(2)
  have "map_of (searchParams r) ''code'' = Some (authorizationCode cd)"
    by simp
  with f(3,4) show ?thesis
    by blast
qed

theorem code_persisted_before_release_witness:
  "fst (login sample_env (alice_login ''state-ok'')) =
     Json_redirect
       \<lparr>url_base = ''https://app/cb'',
        searchParams = [(''code'', ''code-1''), (''state'', ''xyz'')]\<rparr> \<and>
   (\<exists>cd cl ud.
      snd (login sample_env (alice_login ''state-ok'')) =
        [Connected, Saved cd cl ud, Disconnect] \<and>
      saveAuthorizationCode sample_env cd cl ud = None \<and>
      map_of [(''code'', ''code-1''), (''state'', ''xyz'')] ''code'' =
        Some (authorizationCode cd))"
proof -
  have h: "fst (login sample_env (alice_login ''state-ok'')) =
     Json_redirect
       \<lparr>url_base = ''https://app/cb'',
        searchParams = [(''code'', ''code-1''), (''state'', ''xyz'')]\<rparr>"
    by (simp add: sample_login_ok)
  from code_persisted_before_release [OF h] h show ?thesis
    by simp
qed

text \<open>
  C7 (as the handler has it). On a successful authorization request the response names
  (as \<open>redirectTo\<close>) the URL parsed from the request's \<open>redirectUri\<close>, whose query
  parameter \<open>code\<close> is the issued code: the value that \<^verbatim>\<open>generateAuthorizationCode\<close>
  returned for this client and user and that was persisted. The request's \<open>state\<close> is
  attached as the query parameter \<open>state\<close>, converted to a string (a string as it
  is), when it is truthy (\<^verbatim>\<open>if (oauthReqInfo.state)\<close>); otherwise only \<open>code\<close> is
  set.
\<close>

theorem redirect_carries_issued_code_and_truthy_state:
  assumes "fst (login e (Inr body)) = Json_redirect r"
  shows "\<exists>s info cid parsed code cd cl ud.
           login_state body = Some s \<and> JSON_parse_atob e s = Some info \<and>
           new_URL e (property info ''redirectUri'') = Inr parsed \<and>
           url_base r = url_base parsed \<and>
           property info ''clientId'' = Some cid \<and>
           generateAuthorizationCode e cid ud (scope_or_read info) = Inr code \<and>
           snd (login e (Inr body)) = [Connected, Saved cd cl ud, Disconnect] \<and>
           authorizationCode cd = code \<and>
           map_of (searchParams r) ''code'' = Some code \<and>
           (case property info ''state'' of
              None \<Rightarrow> searchParams r = params_set (searchParams parsed) ''code'' code
            | Some st \<Rightarrow>
                if truthy (Some st)
                then (\<exists>str. String_of e st = Inr str \<and>
                            map_of (searchParams r) ''state'' = Some str)
                else searchParams r = params_set (searchParams parsed) ''code'' code) \<and>
           (\<forall>v. property info ''state'' = Some (JStr v) \<and> v \<noteq> [] \<longrightarrow>
                map_of (searchParams r) ''state'' = Some v)"
proof -
  from login_redirect_full [OF assms] obtain s u info cid parsed code
      and cd :: code_data and cl ud where
    f: "login_state body = Some s" "JSON_parse_atob e s = Some info"
       "property info ''clientId'' = Some cid"
       "generateAuthorizationCode e cid (userData u) (scope_or_read info) = Inr code"
       "new_URL e (property info ''redirectUri'') = Inr parsed"
       "redirectUrl e parsed code info = Inr r"
       "authorizationCode cd = code" "ud = userData u"
       "snd (login e (Inr body)) = [Connected, Saved cd cl ud, Disconnect]"
    by blast
  have st: "case property info ''state'' of
              None \<Rightarrow> searchParams r = params_set (searchParams parsed) ''code'' code
            | Some st \<Rightarrow>
                if truthy (Some st)
                then (\<exists>str. String_of e st = Inr str \<and>
                            map_of (searchParams r) ''state'' = Some str)
                else searchParams r = params_set (searchParams parsed) ''code'' code"
  proof (cases "property info ''state''")
    case None
    with redirectUrl_no_state [OF f(6)] show ?thesis
      by simp
  next
    case (Some st)
    show ?thesis
    proof (cases "truthy (Some st)")
      case True
      with redirectUrl_state [OF f(6) Some] Some show ?thesis
        by simp
    next
      case False
      with redirectUrl_no_state [OF f(6)] Some show ?thesis
        by simp
    qed
  qed
  have str: "\<forall>v. property info ''state'' = Some (JStr v) \<and> v \<noteq> [] \<longrightarrow>
                map_of (searchParams r) ''state'' = Some v"
  proof (intro allI impI)
    fix v
    assume a: "property info ''state'' = Some (JStr v) \<and> v \<noteq> []"
    then have "truthy (Some (JStr v))"
      by simp
    from redirectUrl_state [OF f(6) _ this] a
    show "map_of (searchParams r) ''state'' = Some v"
      by (auto simp: String_of_def)
  qed
  have "generateAuthorizationCode e cid ud (scope_or_read info) = Inr code"
    using f(4,8) by simp
  with f(1-3,5,7,9) redirectUrl_base [OF f(6)] redirectUrl_code [OF f(6)] st str
  show ?thesis
    by blast
qed

theorem redirect_carries_issued_code_and_truthy_state_witness:
  "fst (login sample_env
          (Inr \<lparr>login_username = Some (JStr ''alice''),
                login_password = Some (JStr ''wonderland''),
                login_state = Some (JStr ''state-ok'')\<rparr>)) =
     Json_redirect
       \<lparr>url_base = ''https://app/cb'',
        searchParams = [(''code'', ''code-1''), (''state'', ''xyz'')]\<rparr> \<and>
   property
     (JObj [(''clientId'', JStr ''C1''), (''redirectUri'', JStr ''https://app/cb''),
            (''scope'', JArr [JStr ''read'']), (''state'', JStr ''xyz'')])
     ''state'' = Some (JStr ''xyz'') \<and>
   map_of [(''code'', ''code-1''), (''state'', ''xyz'')] ''state'' = Some ''xyz'' \<and>
   generateAuthorizationCode sample_env (JStr ''C1'') alice_data (JArr [JStr ''read'']) =
     Inr ''code-1'' \<and>
   map_of [(''code'', ''code-1''), (''state'', ''xyz'')] ''code'' = Some ''code-1''"
proof -
  let ?body = "\<lparr>login_username = Some (JStr ''alice''),
                login_password = Some (JStr ''wonderland''),
                login_state = Some (JStr ''state-ok'')\<rparr>"
  let ?r = "\<lparr>url_base = ''https://app/cb'',
        searchParams = [(''code'', ''code-1''), (''state'', ''xyz'')]\<rparr>"
  let ?info = "JObj [(''clientId'', JStr ''C1''), (''redirectUri'', JStr ''https://app/cb''),
            (''scope'', JArr [JStr ''read'']), (''state'', JStr ''xyz'')]"
  have l: "login sample_env (Inr ?body) =
      (Json_redirect ?r,
       [Connected,
        Saved \<lparr>authorizationCode = ''code-1'', expiresAt = 1600000,
               redirectUri = Some (JStr ''https://app/cb''), scope = JArr [JStr ''read''],
               codeChallenge = None, codeChallengeMethod = None\<rparr>
          client_c1 alice_data,
        Disconnect])"
    using sample_login_ok by (simp add: alice_login_def)
  then have h: "fst (login sample_env (Inr ?body)) = Json_redirect ?r"
    by simp
  from redirect_carries_issued_code_and_truthy_state [OF h] obtain s info cid code
      and cd :: code_data and cl ud where
    f: "login_state ?body = Some s" "JSON_parse_atob sample_env s = Some info"
       "property info ''clientId'' = Some cid"
       "generateAuthorizationCode sample_env cid ud (scope_or_read info) = Inr code"
       "snd (login sample_env (Inr ?body)) = [Connected, Saved cd cl ud, Disconnect]"
       "map_of (searchParams ?r) ''code'' = Some code"
       "\<forall>v. property info ''state'' = Some (JStr v) \<and> v \<noteq> [] \<longrightarrow>
             map_of (searchParams ?r) ''state'' = Some v"
    by blast
  from f(1,2) have i: "info = ?info"
    by (auto simp: sample_env_def sample_JSON_parse_atob_def sample_states_def)
  from f(5) l have u: "ud = alice_data"
    by simp
  from f(3) i have c: "cid = JStr ''C1''"
    by simp
  from f(6) have k: "code = ''code-1''"
    by simp
  from f(4) i u c k have
    "generateAuthorizationCode sample_env (JStr ''C1'') alice_data (JArr [JStr ''read'']) =
       Inr ''code-1''"
    by (simp add: scope_or_read_def)
  moreover from f(7) i have "map_of (searchParams ?r) ''state'' = Some ''xyz''"
    by simp
  ultimately show ?thesis
    using h by simp
qed

text \<open>
  C7 as stated fails: a \<open>state\<close> that was supplied as the empty string is not echoed.
  The request information below has the property \<open>state\<close>, and the redirect of the
  successful request carries the parameter \<open>code\<close> only.
\<close>

theorem empty_state_not_echoed:
  "JSON_parse_atob sample_env (JStr ''state-empty-state'') =
     Some (JObj [(''clientId'', JStr ''C1''), (''redirectUri'', JStr ''https://app/cb''),
                 (''state'', JStr [])]) \<and>
   property (JObj [(''clientId'', JStr ''C1''), (''redirectUri'', JStr ''https://app/cb''),
                   (''state'', JStr [])]) ''state'' = Some (JStr []) \<and>
   fst (login sample_env (alice_login ''state-empty-state'')) =
     Json_redirect
       \<lparr>url_base = ''https://app/cb'', searchParams = [(''code'', ''code-1'')]\<rparr> \<and>
   map_of (searchParams
             \<lparr>url_base = ''https://app/cb'', searchParams = [(''code'', ''code-1'')]\<rparr>)
     ''state'' = None"
  by (simp add: sample_login_empty_state)
     (simp add: sample_env_def sample_JSON_parse_atob_def sample_states_def)

text \<open>
  C8. The login handler opens the Store connection exactly for a request with a truthy
  username and password, and the registration handler exactly for a request with four
  truthy fields whose password the length test lets through (when \<^verbatim>\<open>db.connect()\<close>
  returns). A request that opened the connection calls \<^verbatim>\<open>db.disconnect()\<close> exactly
  once after it, whatever the response (success, validation failure or the 500 of the
  outer \<^verbatim>\<open>catch\<close>); a request that did not open it calls neither.
\<close>

theorem connection_released_on_every_path:
  "connection_events (snd (login e req)) =
     (if Connected \<in> set (snd (login e req)) then [Connected, Disconnect] else []) \<and>
   (Connected \<in> set (snd (login e req)) \<longleftrightarrow>
      connect e = None \<and>
      (\<exists>body. req = Inr body \<and> truthy (login_username body) \<and> truthy (login_password body))) \<and>
   connection_events (snd (register e req')) =
     (if Connected \<in> set (snd (register e req')) then [Connected, Disconnect] else []) \<and>
   (Connected \<in> set (snd (register e req')) \<longleftrightarrow>
      connect e = None \<and>
      (\<exists>body pw. req' = Inr body \<and> truthy (reg_username body) \<and> truthy (reg_email body) \<and>
         truthy (reg_name body) \<and> reg_password body = Some pw \<and> truthy (Some pw) \<and>
         password_length_less_than_6 e pw = Inr False))"
proof -
  have w: "connection_events (snd (with_connection e l b)) =
        (if connect e = None then [Connected, Disconnect] else []) \<and>
      (Connected \<in> set (snd (with_connection e l b)) \<longleftrightarrow> connect e = None)"
    if b: "connection_events (snd b) = []"
    for l and b :: "(exn + response) \<times> effect list"
  proof (cases "connect e")
    case None
    with with_connection_connection_events [OF b, of e l]
      with_connection_connected [OF None, of l b]
    show ?thesis
      by simp
  next
    case (Some x)
    with with_connection_connection_events [OF b, of e l]
      with_connection_not_connected [OF Some, of l b]
    show ?thesis
      by (simp add: internal_error_def)
  qed
  have login_part:
    "connection_events (snd (login e req)) =
       (if Connected \<in> set (snd (login e req)) then [Connected, Disconnect] else []) \<and>
     (Connected \<in> set (snd (login e req)) \<longleftrightarrow>
        connect e = None \<and>
        (\<exists>body. req = Inr body \<and> truthy (login_username body) \<and> truthy (login_password body)))"
    using login_cases [of req e]
  proof (elim disjE exE conjE)
    fix x
    assume "req = Inl x" "login e req = internal_error ''Login error:'' x"
    then show ?thesis
      by (simp add: internal_error_def connection_events_def)
  next
    fix body
    assume "req = Inr body"
      "\<not> (truthy (login_username body) \<and> truthy (login_password body))"
      "login e req = (Json_message ''Username and password are required'' 400, [])"
    then show ?thesis
      by (simp add: connection_events_def)
  next
    fix body uname pw
    assume a: "req = Inr body" "login_username body = Some uname" "truthy (Some uname)"
      "login_password body = Some pw" "truthy (Some pw)"
      "login e req = with_connection e ''Login error:'' (login_try e uname pw (login_state body))"
    from w [OF login_try_connection_events [of e uname pw "login_state body"],
        of "''Login error:''"] a
    show ?thesis
      by simp
  qed
  have register_part:
    "connection_events (snd (register e req')) =
       (if Connected \<in> set (snd (register e req')) then [Connected, Disconnect] else []) \<and>
     (Connected \<in> set (snd (register e req')) \<longleftrightarrow>
        connect e = None \<and>
        (\<exists>body pw. req' = Inr body \<and> truthy (reg_username body) \<and> truthy (reg_email body) \<and>
           truthy (reg_name body) \<and> reg_password body = Some pw \<and> truthy (Some pw) \<and>
           password_length_less_than_6 e pw = Inr False))"
    using register_cases [of req' e]
  proof (elim disjE exE conjE)
    fix x
    assume "req' = Inl x" "register e req' = internal_error ''Registration error:'' x"
    then show ?thesis
      by (simp add: internal_error_def connection_events_def)
  next
    fix body
    assume "req' = Inr body"
      "\<not> (truthy (reg_username body) \<and> truthy (reg_email body) \<and> truthy (reg_name body) \<and>
          truthy (reg_password body))"
      "register e req' = (Json_message ''All fields are required'' 400, [])"
    then show ?thesis
      by (auto simp: connection_events_def)
  next
    fix body pw x
    assume "req' = Inr body" "reg_password body = Some pw"
      "password_length_less_than_6 e pw = Inl x"
      "register e req' = internal_error ''Registration error:'' x"
    then show ?thesis
      by (simp add: internal_error_def connection_events_def)
  next
    fix body pw
    assume "req' = Inr body" "reg_password body = Some pw"
      "password_length_less_than_6 e pw = Inr True"
      "register e req' = (Json_message ''Password must be at least 6 characters long'' 400, [])"
    then show ?thesis
      by (simp add: connection_events_def)
  next
    fix body uname mail nm pw
    assume a: "req' = Inr body" "reg_username body = Some uname" "reg_email body = Some mail"
      "reg_name body = Some nm" "reg_password body = Some pw"
      "truthy (Some uname)" "truthy (Some mail)" "truthy (Some nm)" "truthy (Some pw)"
      "password_length_less_than_6 e pw = Inr False"
      "register e req' =
         with_connection e ''Registration error:''
           (register_try e
              \<lparr>new_username = uname, new_email = mail, new_name = nm, new_password = pw\<rparr>)"
    from w [OF register_try_connection_events
          [of e "\<lparr>new_username = uname, new_email = mail, new_name = nm, new_password = pw\<rparr>"],
        of "''Registration error:''"] a
    show ?thesis
      by simp
  qed
  from login_part register_part show ?thesis
    by blast
qed

theorem connection_released_on_every_path_witness:
  "Connected \<in> set (snd (login sample_env (alice_login ''state-ok''))) \<and>
   connection_events (snd (login sample_env (alice_login ''state-ok''))) =
     [Connected, Disconnect] \<and>
   Connected \<in> set (snd (register sample_env (bob_registration (JStr ''builder'')))) \<and>
   connection_events (snd (register sample_env (bob_registration (JStr ''builder'')))) =
     [Connected, Disconnect] \<and>
   fst (register (sample_env\<lparr>getUserByUsername := \<lambda>n. Inl (ServiceError ''query failed'')\<rparr>)
          (bob_registration (JStr ''builder''))) =
     Json_message ''Internal server error'' 500 \<and>
   connection_events
     (snd (register (sample_env\<lparr>getUserByUsername := \<lambda>n. Inl (ServiceError ''query failed'')\<rparr>)
             (bob_registration (JStr ''builder'')))) =
     [Connected, Disconnect]"
proof -
  let ?e = "sample_env\<lparr>getUserByUsername := \<lambda>n. Inl (ServiceError ''query failed'')\<rparr>"
  let ?body = "\<lparr>reg_username = Some (JStr ''bob''), reg_email = Some (JStr ''bob@example.com''),
          reg_name = Some (JStr ''Bob''), reg_password = Some (JStr ''builder'')\<rparr>"
  have c: "connect sample_env = None" "connect ?e = None"
    by (simp_all add: sample_env_def)
  have l: "\<exists>body. alice_login ''state-ok'' = Inr body \<and> truthy (login_username body) \<and>
      truthy (login_password body)"
    by (simp add: alice_login_def)
  have p: "password_length_less_than_6 sample_env (JStr ''builder'') = Inr False"
    "password_length_less_than_6 ?e (JStr ''builder'') = Inr False"
    by (simp_all add: password_length_string)
  have r: "\<exists>body pw. bob_registration (JStr ''builder'') = Inr body \<and>
      truthy (reg_username body) \<and> truthy (reg_email body) \<and> truthy (reg_name body) \<and>
      reg_password body = Some pw \<and> truthy (Some pw) \<and>
      password_length_less_than_6 sample_env pw = Inr False"
    using p(1) by (simp add: bob_registration_def)
  have r': "\<exists>body pw. bob_registration (JStr ''builder'') = Inr body \<and>
      truthy (reg_username body) \<and> truthy (reg_email body) \<and> truthy (reg_name body) \<and>
      reg_password body = Some pw \<and> truthy (Some pw) \<and>
      password_length_less_than_6 ?e pw = Inr False"
    using p(2) by (simp add: bob_registration_def)
  from connection_released_on_every_path
         [of sample_env "alice_login ''state-ok''" "bob_registration (JStr ''builder'')"] c(1) l r
  have a: "Connected \<in> set (snd (login sample_env (alice_login ''state-ok''))) \<and>
      connection_events (snd (login sample_env (alice_login ''state-ok''))) =
        [Connected, Disconnect] \<and>
      Connected \<in> set (snd (register sample_env (bob_registration (JStr ''builder'')))) \<and>
      connection_events (snd (register sample_env (bob_registration (JStr ''builder'')))) =
        [Connected, Disconnect]"
    by presburger
  from connection_released_on_every_path
         [of ?e "alice_login ''state-ok''" "bob_registration (JStr ''builder'')"] c(2) r'
  have b: "connection_events (snd (register ?e (bob_registration (JStr ''builder'')))) =
      [Connected, Disconnect]"
    by presburger
  have "fst (register ?e (bob_registration (JStr ''builder''))) =
      Json_message ''Internal server error'' 500"
    by (simp add: sample_register_lookup_throws)
  with a b show ?thesis
    by blast
qed

text \<open>
  C9. Two login requests with the same body, one against a Store where the username
  does not exist and one where it exists and the password does not verify, get the
  same response and leave the same effects; when the connection opens and is released
  without an exception, that response is 401 with the message
  \<^verbatim>\<open>Invalid username or password\<close>.
\<close>

theorem login_failure_indistinguishable:
  assumes "login_username body = Some uname" and "login_password body = Some pw"
    and "getUserByUsername e1 uname = Inr None"
    and "getUserByUsername e2 uname = Inr (Some u)"
    and "verifyPassword e2 pw (password_hash u) = Inr False"
    and "connect e2 = connect e1" and "disconnect e2 = disconnect e1"
  shows "login e1 (Inr body) = login e2 (Inr body) \<and>
         (truthy (Some uname) \<and> truthy (Some pw) \<and> connect e1 = None \<and> disconnect e1 = None \<longrightarrow>
            fst (login e1 (Inr body)) = Json_message ''Invalid username or password'' 401)"
proof -
  have t1: "login_try e1 uname pw (login_state body) =
      (Inr (Json_message ''Invalid username or password'' 401), [])"
    using assms(3) by (simp add: login_try_def)
  have t2: "login_try e2 uname pw (login_state body) =
      (Inr (Json_message ''Invalid username or password'' 401), [])"
    using assms(4,5) by (simp add: login_try_def)
  have "with_connection e2 ''Login error:'' (login_try e2 uname pw (login_state body)) =
      with_connection e1 ''Login error:'' (login_try e1 uname pw (login_state body))"
    using assms(6,7) t1 t2 by (simp add: with_connection_def split: option.splits)
  then have "login e1 (Inr body) = login e2 (Inr body)"
    using assms(1,2) by (simp add: login_def)
  moreover have "truthy (Some uname) \<and> truthy (Some pw) \<and> connect e1 = None \<and>
      disconnect e1 = None \<longrightarrow>
      fst (login e1 (Inr body)) = Json_message ''Invalid username or password'' 401"
    using assms(1,2) t1 by (simp add: login_def with_connection_def)
  ultimately show ?thesis
    by blast
qed

theorem login_failure_indistinguishable_witness:
  "login (sample_env\<lparr>getUserByUsername := \<lambda>n. Inr None\<rparr>)
     (Inr \<lparr>login_username = Some (JStr ''alice''), login_password = Some (JStr ''guess''),
           login_state = None\<rparr>) =
   login sample_env
     (Inr \<lparr>login_username = Some (JStr ''alice''), login_password = Some (JStr ''guess''),
           login_state = None\<rparr>) \<and>
   fst (login (sample_env\<lparr>getUserByUsername := \<lambda>n. Inr None\<rparr>)
          (Inr \<lparr>login_username = Some (JStr ''alice''), login_password = Some (JStr ''guess''),
                login_state = None\<rparr>)) =
     Json_message ''Invalid username or password'' 401"
proof -
  let ?body = "\<lparr>login_username = Some (JStr ''alice''), login_password = Some (JStr ''guess''),
                login_state = None\<rparr>"
  let ?e1 = "sample_env\<lparr>getUserByUsername := \<lambda>n. Inr None\<rparr>"
  have h1: "login_username ?body = Some (JStr ''alice'')"
    and h2: "login_password ?body = Some (JStr ''guess'')"
    by simp_all
  have h3: "getUserByUsername ?e1 (JStr ''alice'') = Inr None"
    by simp
  have h4: "getUserByUsername sample_env (JStr ''alice'') = Inr (Some alice)"
    by (simp add: sample_env_def)
  have h5: "verifyPassword sample_env (JStr ''guess'') (password_hash alice) = Inr False"
    by (simp add: sample_env_def alice_def)
  have h6: "connect sample_env = connect ?e1" and h7: "disconnect sample_env = disconnect ?e1"
    by simp_all
  have h8: "connect ?e1 = None" and h9: "disconnect ?e1 = None"
    by (simp_all add: sample_env_def)
  have h10: "truthy (Some (JStr ''alice''))" "truthy (Some (JStr ''guess''))"
    by simp_all
  from login_failure_indistinguishable [OF h1 h2 h3 h4 h5 h6 h7] h8 h9 h10 show ?thesis
    by blast
qed




end
